theory Spec2Isabelle
  imports Complex_Main "HOL-Library.Multiset" "HOL-Library.Log_Nat"
begin

section \<open>Python values used by the ATS scanner and the CV optimizer\<close>

text \<open>
  A Python \<^verbatim>\<open>str\<close> is a sequence of Unicode code points, so a text is a list of
  natural numbers; the bullet glyph U+2022 is the single element \<open>8226\<close>. ASCII
  literals of the source are written \<open>asc ''...''\<close>.

  \<^item> \<^verbatim>\<open>str.isspace\<close>, \<^verbatim>\<open>str.strip\<close>, \<^verbatim>\<open>str.split()\<close> and the regular
    expression class \<^verbatim>\<open>\s\<close> use the full list of Unicode white space.
  \<^item> The class \<^verbatim>\<open>\d\<close> is the set of Unicode decimal digits (general category Nd of
    Unicode 14.0, the database of Python 3.11), not only \<^verbatim>\<open>0\<close> to \<^verbatim>\<open>9\<close>.
  \<^item> \<^verbatim>\<open>str.lower\<close> and \<^verbatim>\<open>\w\<close> are written out for the ASCII range; code points
    above it are left unchanged by \<open>lower\<close> and are not word characters.
  \<^item> A finite Python \<^verbatim>\<open>float\<close> is the rational number that it denotes. The
    quantification rates, whose value the results report and truncate, and the length
    threshold of the response parser are computed as Python computes them: every
    division and product is rounded to the nearest binary64 number (\<open>binary64\<close> below).
    The averages and the weighted sums of the scores are written with exact rational
    arithmetic. \<^verbatim>\<open>int(x)\<close> truncates toward zero.
\<close>

type_synonym pystr = "nat list"

definition asc :: "string \<Rightarrow> pystr" where
  "asc s = map of_char s"

definition newline :: nat where
  "newline = 10"

definition dquote :: nat where
  "dquote = 34"

definition is_space :: "nat \<Rightarrow> bool" where
  "is_space c \<longleftrightarrow>
     (9 \<le> c \<and> c \<le> 13) \<or> (28 \<le> c \<and> c \<le> 32) \<or> c = 133 \<or> c = 160 \<or> c = 5760 \<or>
     (8192 \<le> c \<and> c \<le> 8202) \<or> c = 8232 \<or> c = 8233 \<or> c = 8239 \<or> c = 8287 \<or> c = 12288"

text \<open>
  The decimal digits come in runs of ten consecutive code points, zero to nine;
  \<open>decimal_zeros\<close> lists the zero of each run (\<^verbatim>\<open>0\<close>, Arabic-Indic, Devanagari, ...,
  fullwidth, the mathematical digits, ...).
\<close>

definition decimal_zeros :: "nat list" where
  "decimal_zeros =
     [48, 1632, 1776, 1984, 2406, 2534, 2662, 2790, 2918, 3046, 3174, 3302, 3430, 3558, 3664,
      3792, 3872, 4160, 4240, 6112, 6160, 6470, 6608, 6784, 6800, 6992, 7088, 7232, 7248,
      42528, 43216, 43264, 43472, 43504, 43600, 44016, 65296, 66720, 68912, 69734, 69872,
      69942, 70096, 70384, 70736, 70864, 71248, 71360, 71472, 71904, 72016, 72784, 73040,
      73120, 92768, 92864, 93008, 120782, 120792, 120802, 120812, 120822, 123200, 123632,
      125264, 130032]"

definition is_digit :: "nat \<Rightarrow> bool" where
  "is_digit c \<longleftrightarrow> list_ex (\<lambda>z. z \<le> c \<and> c \<le> z + 9) decimal_zeros"

definition lower_chr :: "nat \<Rightarrow> nat" where
  "lower_chr c = (if 65 \<le> c \<and> c \<le> 90 then c + 32 else c)"

definition lower :: "pystr \<Rightarrow> pystr" where
  "lower s = map lower_chr s"

text \<open>\<^verbatim>\<open>s.startswith(p)\<close> and \<^verbatim>\<open>needle in hay\<close>.\<close>

fun startswith :: "pystr \<Rightarrow> pystr \<Rightarrow> bool" where
  "startswith s [] = True"
| "startswith [] (p # ps) = False"
| "startswith (c # cs) (p # ps) = (c = p \<and> startswith cs ps)"

fun is_in :: "pystr \<Rightarrow> pystr \<Rightarrow> bool" where
  "is_in needle [] = (needle = [])"
| "is_in needle (c # cs) = (startswith (c # cs) needle \<or> is_in needle cs)"

text \<open>\<^verbatim>\<open>s.split(sep)\<close> for a one-character separator, and \<^verbatim>\<open>sep.join(xs)\<close>.\<close>

fun split_acc :: "nat \<Rightarrow> pystr \<Rightarrow> pystr \<Rightarrow> pystr list" where
  "split_acc d cur [] = [cur]"
| "split_acc d cur (c # cs) =
     (if c = d then cur # split_acc d [] cs else split_acc d (cur @ [c]) cs)"

definition split_lines :: "pystr \<Rightarrow> pystr list" where
  "split_lines s = split_acc newline [] s"

fun join :: "pystr \<Rightarrow> pystr list \<Rightarrow> pystr" where
  "join sep [] = []"
| "join sep [x] = x"
| "join sep (x # y # ys) = x @ sep @ join sep (y # ys)"

text \<open>\<^verbatim>\<open>s.split()\<close>: the maximal runs of characters that are not white space.\<close>

fun words_acc :: "pystr \<Rightarrow> pystr \<Rightarrow> pystr list" where
  "words_acc cur [] = (if cur = [] then [] else [cur])"
| "words_acc cur (c # cs) =
     (if is_space c then (if cur = [] then words_acc [] cs else cur # words_acc [] cs)
      else words_acc (cur @ [c]) cs)"

definition py_split :: "pystr \<Rightarrow> pystr list" where
  "py_split s = words_acc [] s"

definition strip :: "pystr \<Rightarrow> pystr" where
  "strip s = rev (dropWhile is_space (rev (dropWhile is_space s)))"

text \<open>
  \<^verbatim>\<open>s.replace(old, new)\<close> for a non-empty \<open>old\<close> (every call of the source passes a
  non-empty literal): occurrences are replaced from the left and do not overlap. The
  counter is the number of characters of the current occurrence still to be skipped.
\<close>

fun repl :: "pystr \<Rightarrow> pystr \<Rightarrow> nat \<Rightarrow> pystr \<Rightarrow> pystr" where
  "repl old new k [] = []"
| "repl old new (Suc k) (c # cs) = repl old new k cs"
| "repl old new 0 (c # cs) =
     (if old \<noteq> [] \<and> startswith (c # cs) old then new @ repl old new (length old - 1) cs
      else c # repl old new 0 cs)"

definition replace :: "pystr \<Rightarrow> pystr \<Rightarrow> pystr \<Rightarrow> pystr" where
  "replace old new s = repl old new 0 s"

text \<open>\<^verbatim>\<open>s.find(c)\<close> and \<^verbatim>\<open>s.rfind(c)\<close> for one character: an index, or \<open>-1\<close>.\<close>

fun find_from :: "nat \<Rightarrow> nat \<Rightarrow> pystr \<Rightarrow> int" where
  "find_from c i [] = - 1"
| "find_from c i (x # xs) = (if x = c then int i else find_from c (Suc i) xs)"

fun rfind_from :: "nat \<Rightarrow> nat \<Rightarrow> int \<Rightarrow> pystr \<Rightarrow> int" where
  "rfind_from c i best [] = best"
| "rfind_from c i best (x # xs) = rfind_from c (Suc i) (if x = c then int i else best) xs"

definition py_find :: "pystr \<Rightarrow> nat \<Rightarrow> int" where
  "py_find s c = find_from c 0 s"

definition py_rfind :: "pystr \<Rightarrow> nat \<Rightarrow> int" where
  "py_rfind s c = rfind_from c 0 (- 1) s"

text \<open>\<^verbatim>\<open>s[i:j]\<close> for indices that are not negative.\<close>

definition slice :: "pystr \<Rightarrow> nat \<Rightarrow> nat \<Rightarrow> pystr" where
  "slice s i j = take (j - i) (drop i s)"

text \<open>\<^verbatim>\<open>str(n)\<close> for a count, as the f-strings of the source print it.\<close>

fun digits_fuel :: "nat \<Rightarrow> nat \<Rightarrow> pystr" where
  "digits_fuel 0 n = []"
| "digits_fuel (Suc f) n =
     (if n < 10 then [48 + n] else digits_fuel f (n div 10) @ [48 + n mod 10])"

definition str_of_nat :: "nat \<Rightarrow> pystr" where
  "str_of_nat n = digits_fuel (Suc n) n"

text \<open>\<^verbatim>\<open>int(x)\<close> on a float.\<close>

definition py_int :: "rat \<Rightarrow> int" where
  "py_int x = (if 0 \<le> x then \<lfloor>x\<rfloor> else \<lceil>x\<rceil>)"

text \<open>
  Binary64 arithmetic. A finite float is \<open>m * 2 ^ e\<close> with a mantissa \<open>m\<close> of at most 53
  bits and \<open>e\<close> at least \<open>-1074\<close>. \<open>exponent x\<close> is the position of the leading bit of a
  positive \<open>x\<close>, that is \<open>2 ^ exponent x \<le> x < 2 ^ (exponent x + 1)\<close>; the last place
  of the mantissa of \<open>x\<close> is 52 positions below it, and not below \<open>-1074\<close> (subnormal
  numbers). \<open>binary64 x\<close> is the float nearest to \<open>x\<close>, a tie going to the even mantissa
  (the rounding mode of Python). The operations \<^verbatim>\<open>a / b\<close> on two \<^verbatim>\<open>int\<close> and \<^verbatim>\<open>x * y\<close> on
  floats return the exact result rounded in this way. Results of magnitude
  \<open>2 ^ 1024\<close> and above, which Python turns into an infinity, do not arise: the rates
  lie between 0 and 100.
\<close>

definition pow2 :: "int \<Rightarrow> rat" where
  "pow2 e = (if 0 \<le> e then 2 ^ nat e else 1 / 2 ^ nat (- e))"

definition exponent :: "rat \<Rightarrow> int" where
  "exponent x = (if 1 \<le> x then int (floorlog 2 (nat \<lfloor>x\<rfloor>)) - 1
                 else - int (floorlog 2 (nat (\<lceil>1 / x\<rceil> - 1))))"

definition round_half_even :: "rat \<Rightarrow> int" where
  "round_half_even x =
     (let f = \<lfloor>x\<rfloor>; d = x - of_int f
      in if d < 1 / 2 \<or> (d = 1 / 2 \<and> even f) then f else f + 1)"

definition binary64 :: "rat \<Rightarrow> rat" where
  "binary64 x =
     (if x = 0 then 0
      else (let e = max (exponent \<bar>x\<bar> - 52) (- 1074)
            in sgn x * of_int (round_half_even (\<bar>x\<bar> / pow2 e)) * pow2 e))"

text \<open>\<^verbatim>\<open>a / b\<close> for two integers, \<open>b\<close> not zero, and \<^verbatim>\<open>x * y\<close> for two floats.\<close>

definition float_div :: "int \<Rightarrow> int \<Rightarrow> rat" where
  "float_div a b = binary64 (of_int a / of_int b)"

definition float_mul :: "rat \<Rightarrow> rat \<Rightarrow> rat" where
  "float_mul x y = binary64 (x * y)"

text \<open>The exceptions that the modelled code can meet.\<close>

datatype py_exception =
  JSONDecodeError | TypeError | ValueError | AttributeError | ZeroDivisionError
  | RequestException | RuntimeError

text \<open>A line is a bullet when its stripped form starts with one of the three glyphs.\<close>

definition is_glyph :: "nat \<Rightarrow> bool" where
  "is_glyph c \<longleftrightarrow> c = 8226 \<or> c = 45 \<or> c = 42"

definition is_bullet_line :: "pystr \<Rightarrow> bool" where
  "is_bullet_line line = (case strip line of [] \<Rightarrow> False | c # cs \<Rightarrow> is_glyph c)"

section \<open>The CV optimizer (cv_optimizer.py)\<close>

subsection \<open>\<^verbatim>\<open>_analyze_current_cv\<close> and \<^verbatim>\<open>_detect_sections\<close>\<close>

text \<open>
  \<^verbatim>\<open>_detect_sections\<close> tests \<^verbatim>\<open>pattern in line\<close>: the pattern text itself is looked
  for as a substring of each lower-cased line, parentheses and bars included.
\<close>

definition section_patterns :: "(pystr \<times> pystr) list" where
  "section_patterns =
     [(asc ''summary'', asc ''(summary|profile|objective)''),
      (asc ''experience'', asc ''(experience|work|employment|career)''),
      (asc ''education'', asc ''education''),
      (asc ''skills'', asc ''skills''),
      (asc ''certifications'', asc ''(certifications|certificates)''),
      (asc ''projects'', asc ''projects'')]"

definition detect_sections :: "pystr \<Rightarrow> pystr list" where
  "detect_sections cv_text =
     (let cv_lower = lower cv_text in
      map fst (filter (\<lambda>(sec, pattern). list_ex (\<lambda>line. is_in pattern line) (split_lines cv_lower))
                 section_patterns))"

record current_analysis =
  cv_total_bullets :: nat
  cv_quantified_bullets :: nat
  cv_quantification_rate :: rat
  cv_power_verb_count :: nat
  cv_word_count :: nat
  cv_sections_detected :: "pystr list"

definition quantity_chars :: "nat list" where
  "quantity_chars = asc ''%$0123456789''"

definition optimizer_power_verbs :: "pystr list" where
  "optimizer_power_verbs =
     [asc ''architected'', asc ''orchestrated'', asc ''spearheaded'', asc ''optimized'',
      asc ''transformed'']"

definition analyze_current_cv :: "pystr \<Rightarrow> current_analysis" where
  "analyze_current_cv cv_text =
     (let lines = split_lines cv_text;
          bullets = filter is_bullet_line lines;
          quantified_bullets =
            length (filter (\<lambda>bullet. list_ex (\<lambda>ch. ch \<in> set bullet) quantity_chars) bullets);
          power_verb_count =
            length (filter (\<lambda>verb. is_in (lower verb) (lower cv_text)) optimizer_power_verbs)
      in \<lparr> cv_total_bullets = length bullets,
           cv_quantified_bullets = quantified_bullets,
           cv_quantification_rate =
             (of_nat quantified_bullets / of_nat (max (length bullets) 1)) * 100,
           cv_power_verb_count = power_verb_count,
           cv_word_count = length (py_split cv_text),
           cv_sections_detected = detect_sections cv_text \<rparr>)"

subsection \<open>\<^verbatim>\<open>_validate_improvements\<close>\<close>

record improvement_deltas =
  quantification_improvement :: rat
  power_verb_improvement :: int
  length_change :: int
  bullet_count_change :: int

record validation =
  v_improvements :: improvement_deltas
  improvement_score :: int
  validation_passed :: bool
  original_analysis :: current_analysis
  optimized_analysis :: current_analysis

definition validate_improvements :: "pystr \<Rightarrow> pystr \<Rightarrow> validation" where
  "validate_improvements original optimized =
     (let original_analysis = analyze_current_cv original;
          optimized_analysis = analyze_current_cv optimized;
          improvements =
            \<lparr> quantification_improvement =
                 cv_quantification_rate optimized_analysis
                 - cv_quantification_rate original_analysis,
               power_verb_improvement =
                 int (cv_power_verb_count optimized_analysis)
                 - int (cv_power_verb_count original_analysis),
               length_change = int (length (py_split optimized)) - int (length (py_split original)),
               bullet_count_change =
                 int (cv_total_bullets optimized_analysis)
                 - int (cv_total_bullets original_analysis) \<rparr>;
          s0 = (0 :: int);
          s1 = (if quantification_improvement improvements > 0 then s0 + 30 else s0);
          s2 = (if power_verb_improvement improvements > 0 then s1 + 25 else s1);
          s3 = (if - 50 \<le> length_change improvements \<and> length_change improvements \<le> 200
                then s2 + 20 else s2);
          s4 = (if bullet_count_change improvements \<ge> 0 then s3 + 25 else s3)
      in \<lparr> v_improvements = improvements,
           improvement_score = s4,
           validation_passed = (s4 \<ge> 50),
           original_analysis = original_analysis,
           optimized_analysis = optimized_analysis \<rparr>)"

subsection \<open>\<^verbatim>\<open>_fallback_optimization\<close>\<close>

record improvement =
  section_name :: pystr
  original :: pystr
  improved :: pystr
  reason :: pystr
  impact_score :: nat

text \<open>A result dictionary; \<open>fallback_used = None\<close> when the key is absent.\<close>

record opt_result =
  optimized_content :: pystr
  improvements :: "improvement list"
  summary :: pystr
  fallback_used :: "bool option"

record opt_context =
  cv_text :: pystr
  job_description :: pystr
  optimization_level :: pystr

definition verb_replacements :: "(pystr \<times> pystr) list" where
  "verb_replacements =
     [(asc ''worked on'', asc ''developed''),
      (asc ''helped with'', asc ''contributed to''),
      (asc ''was responsible for'', asc ''managed''),
      (asc ''assisted'', asc ''supported'')]"

text \<open>
  The inner loop over the replacement table: each replacement is applied to
  \<^verbatim>\<open>line.lower()\<close>, not to the line as rewritten so far.
\<close>

fun replace_step :: "pystr \<Rightarrow> pystr \<times> improvement list \<Rightarrow> pystr \<times> pystr
                     \<Rightarrow> pystr \<times> improvement list" where
  "replace_step line (optimized_line, imps) (weak, strong) =
     (if is_in weak (lower line) then
        (let optimized_line' = replace weak strong (lower line) in
         (optimized_line',
          if optimized_line' \<noteq> line then
            imps @ [\<lparr> section_name = asc ''experience'', original = line,
                       improved = optimized_line',
                       reason = asc ''Replaced weak verb '' @ [dquote] @ weak @ [dquote]
                                @ asc '' with stronger '' @ [dquote] @ strong @ [dquote],
                       impact_score = 6 \<rparr>]
          else imps))
      else (optimized_line, imps))"

fun line_step :: "pystr list \<times> improvement list \<Rightarrow> pystr \<Rightarrow> pystr list \<times> improvement list" where
  "line_step (optimized_lines, imps) line =
     (case foldl (replace_step line) (line, imps) verb_replacements of
        (optimized_line, imps') \<Rightarrow> (optimized_lines @ [optimized_line], imps'))"

definition fallback_optimization :: "opt_context \<Rightarrow> opt_result" where
  "fallback_optimization ctx =
     (case foldl line_step ([], []) (split_lines (cv_text ctx)) of
        (optimized_lines, imps) \<Rightarrow>
          \<lparr> optimized_content = join [newline] optimized_lines,
            improvements = imps,
            summary = asc ''Applied '' @ str_of_nat (length imps) @ asc '' rule-based improvements'',
            fallback_used = Some True \<rparr>)"

subsection \<open>\<^verbatim>\<open>get_optimization_suggestions\<close>\<close>

text \<open>
  The operands of the binary minus in the missing-sections computation. Python defines
  the difference for two sets only; a list on either side raises \<^verbatim>\<open>TypeError\<close>. A set is
  kept as the list of its elements in iteration order.
\<close>

datatype py_operand = PyList "pystr list" | PySet "pystr list"

fun py_sub :: "py_operand \<Rightarrow> py_operand \<Rightarrow> py_exception + py_operand" where
  "py_sub (PySet xs) (PySet ys) = Inr (PySet (filter (\<lambda>x. x \<notin> set ys) xs))"
| "py_sub (PyList xs) b = Inl TypeError"
| "py_sub a (PyList ys) = Inl TypeError"

fun elements :: "py_operand \<Rightarrow> pystr list" where
  "elements (PyList xs) = xs"
| "elements (PySet xs) = xs"

record suggestion =
  category :: pystr
  priority :: pystr
  suggestion_text :: pystr
  impact :: pystr
  examples :: "pystr list"

definition quantification_suggestion :: "current_analysis \<Rightarrow> suggestion" where
  "quantification_suggestion analysis =
     \<lparr> category = asc ''quantification'', priority = asc ''high'',
       suggestion_text =
         asc ''Add numbers to ''
         @ str_of_nat (cv_total_bullets analysis - cv_quantified_bullets analysis)
         @ asc '' more bullet points'',
       impact = asc ''Quantified achievements are 40% more likely to pass ATS screening'',
       examples = [asc ''Increased efficiency by 25%'', asc ''Managed team of 8 developers'',
                   asc ''Reduced costs by $50K annually''] \<rparr>"

definition action_verb_suggestion :: suggestion where
  "action_verb_suggestion =
     \<lparr> category = asc ''action_verbs'', priority = asc ''high'',
       suggestion_text = asc ''Replace weak verbs with powerful action verbs'',
       impact = asc ''Strong action verbs improve readability and impact'',
       examples = [asc ''Architected scalable solutions'',
                   asc ''Orchestrated cross-team initiatives'',
                   asc ''Spearheaded digital transformation''] \<rparr>"

definition structure_suggestion :: "pystr list \<Rightarrow> suggestion" where
  "structure_suggestion missing_sections =
     \<lparr> category = asc ''structure'', priority = asc ''medium'',
       suggestion_text = asc ''Add missing sections: '' @ join (asc '', '') missing_sections,
       impact = asc ''Complete sections improve ATS parsing and readability'',
       examples = [asc ''Professional Summary with 3-4 key achievements'',
                   asc ''Technical Skills section with relevant technologies''] \<rparr>"

text \<open>The body of the \<^verbatim>\<open>try\<close> block: \<open>Inl\<close> is a raised exception.\<close>

definition suggestions_body :: "pystr \<Rightarrow> pystr \<Rightarrow> py_exception + suggestion list" where
  "suggestions_body text jd =
     (let analysis = analyze_current_cv text;
          s1 = (if cv_quantification_rate analysis < 80
                then [quantification_suggestion analysis] else []);
          s2 = (if cv_power_verb_count analysis < 5 then s1 @ [action_verb_suggestion] else s1)
      in case py_sub (PyList [asc ''summary'', asc ''skills''])
                     (PySet (remdups (cv_sections_detected analysis))) of
           Inl e \<Rightarrow> Inl e
         | Inr missing_sections \<Rightarrow>
             Inr (if elements missing_sections \<noteq> []
                  then s2 @ [structure_suggestion (elements missing_sections)] else s2))"

definition get_optimization_suggestions :: "pystr \<Rightarrow> pystr \<Rightarrow> suggestion list" where
  "get_optimization_suggestions text jd =
     (case suggestions_body text jd of Inl e \<Rightarrow> [] | Inr suggestions \<Rightarrow> suggestions)"

subsection \<open>The LLM call and the parsing of its response\<close>

text \<open>
  The endpoint is outside the program: its answer to the \<open>n\<close>-th request is an input of
  the model, either an exception raised by the request (connection error, timeout, bad
  status, undecodable body) or the value found under the key \<^verbatim>\<open>response\<close>. The prompt
  only travels to the endpoint and is not built here. \<open>calls\<close> counts the requests sent.
\<close>

datatype json =
  JNull | JBool bool | JNum rat | JStr pystr | JArr "json list" | JObj "(pystr \<times> json) list"

record network =
  endpoint :: "nat \<Rightarrow> py_exception + json"
  calls :: nat

record llm_config =
  provider :: pystr
  model :: pystr
  base_url :: pystr

definition call_llm_api :: "llm_config \<Rightarrow> network \<Rightarrow> (py_exception + json) \<times> network" where
  "call_llm_api cfg net =
     (if provider cfg = asc ''ollama''
      then (endpoint net (calls net), net\<lparr> calls := calls net + 1 \<rparr>)
      else (Inl ValueError, net))"

text \<open>
  What \<^verbatim>\<open>_generate_optimizations\<close> returns: the dictionary decoded from the answer of
  the LLM, or a dictionary built by the program.
\<close>

datatype gen_result = Decoded "(pystr \<times> json) list" | Built opt_result

definition create_fallback_response :: "pystr \<Rightarrow> opt_result" where
  "create_fallback_response original_cv =
     \<lparr> optimized_content = original_cv, improvements = [],
       summary = asc ''Optimization failed - original content preserved'',
       fallback_used = Some True \<rparr>"

definition structured_response :: "pystr \<Rightarrow> pystr \<Rightarrow> opt_result" where
  "structured_response response original_cv =
     \<lparr> optimized_content =
         (if (of_nat (length response) :: rat)
               > float_mul (binary64 (of_nat (length original_cv))) (binary64 (8 / 10))
          then response else original_cv),
       improvements =
         [\<lparr> section_name = asc ''general'', original = asc ''Various sections'',
             improved = asc ''Enhanced content'', reason = asc ''LLM optimization applied'',
             impact_score = 7 \<rparr>],
       summary = asc ''CV optimized using AI analysis'',
       fallback_used = None \<rparr>"

definition has_key :: "pystr \<Rightarrow> (pystr \<times> json) list \<Rightarrow> bool" where
  "has_key k d = list_ex (\<lambda>(k', v). k' = k) d"

text \<open>
  \<open>loads\<close> is \<^verbatim>\<open>json.loads\<close>, a library function: on a text that starts with an opening
  brace it returns an object or raises. An answer that is not a string has no \<^verbatim>\<open>find\<close>
  method. \<open>parse_body\<close> is the body of the \<^verbatim>\<open>try\<close> statement of
  \<^verbatim>\<open>_parse_optimization_response\<close>, with the exception that it raises, if any; the
  handler of the parser catches \<^verbatim>\<open>JSONDecodeError\<close> only, every other exception leaves
  the parser.
\<close>

definition parse_body ::
  "(pystr \<Rightarrow> py_exception + (pystr \<times> json) list) \<Rightarrow> json \<Rightarrow> pystr
   \<Rightarrow> py_exception + gen_result" where
  "parse_body loads response original_cv =
     (case response of
        JStr r \<Rightarrow>
          (let start_idx = py_find r 123; end_idx = py_rfind r 125 + 1 in
           if start_idx \<noteq> - 1 \<and> end_idx \<noteq> 0 then
             (case loads (slice r (nat start_idx) (nat end_idx)) of
                Inl e \<Rightarrow> Inl e
              | Inr result \<Rightarrow>
                  if has_key (asc ''optimized_content'') result
                     \<and> has_key (asc ''improvements'') result
                  then Inr (Decoded result)
                  else Inr (Built (structured_response r original_cv)))
           else Inr (Built (structured_response r original_cv)))
      | _ \<Rightarrow> Inl AttributeError)"

definition parse_optimization_response ::
  "(pystr \<Rightarrow> py_exception + (pystr \<times> json) list) \<Rightarrow> json \<Rightarrow> pystr
   \<Rightarrow> py_exception + gen_result" where
  "parse_optimization_response loads response original_cv =
     (case parse_body loads response original_cv of
        Inl JSONDecodeError \<Rightarrow> Inr (Built (create_fallback_response original_cv))
      | Inl e \<Rightarrow> Inl e
      | Inr result \<Rightarrow> Inr result)"

definition generate_optimizations ::
  "llm_config \<Rightarrow> (pystr \<Rightarrow> py_exception + (pystr \<times> json) list) \<Rightarrow> network \<Rightarrow> opt_context
   \<Rightarrow> gen_result \<times> network" where
  "generate_optimizations cfg loads net ctx =
     (case call_llm_api cfg net of
        (Inl e, net') \<Rightarrow> (Built (fallback_optimization ctx), net')
      | (Inr response, net') \<Rightarrow>
          (case parse_optimization_response loads response (cv_text ctx) of
             Inl e \<Rightarrow> (Built (fallback_optimization ctx), net')
           | Inr result \<Rightarrow> (result, net')))"

section \<open>Regular expressions as the scanners use them\<close>

text \<open>
  The patterns of the source use literal characters, character classes, the dot, the
  anchors \<^verbatim>\<open>^\<close> and \<^verbatim>\<open>$\<close> (always with \<^verbatim>\<open>re.MULTILINE\<close>), the word boundary,
  alternation, groups, and repetition of a single character or class only. A match is
  found the way Python's backtracking matcher finds it: \<open>ends\<close> lists the positions
  where a match starting here can end, in the order in which the matcher tries them
  (left alternative first, a greedy repetition longest first, a lazy one shortest first),
  so the head of the list is the match that Python reports.

  A position is the character before it (if any), the text after it, and the groups
  captured so far. \<open>ic\<close> is \<^verbatim>\<open>re.IGNORECASE\<close>.
\<close>

datatype atom = Chr nat | Cls "nat \<Rightarrow> bool" | Dot

datatype regex =
  Atom atom | Star atom | LazyStar atom | Seq regex regex | Alt regex regex | Eps
  | Bol | Eol | WordB | Group nat regex

type_synonym captures = "(nat \<times> pystr) list"
type_synonym position = "nat option \<times> pystr \<times> captures"

definition is_word :: "nat \<Rightarrow> bool" where
  "is_word c \<longleftrightarrow>
     (48 \<le> c \<and> c \<le> 57) \<or> (65 \<le> c \<and> c \<le> 90) \<or> (97 \<le> c \<and> c \<le> 122) \<or> c = 95"

text \<open>
  The literal characters of the patterns are ASCII. Under \<^verbatim>\<open>re.IGNORECASE\<close> a letter
  matches its two ASCII cases, and besides \<^verbatim>\<open>i\<close> matches U+0130 and U+0131, \<^verbatim>\<open>k\<close> the
  Kelvin sign U+212A and \<^verbatim>\<open>s\<close> the long s U+017F; \<open>fold_chr\<close> sends a character to the
  lower-case ASCII letter that it matches.
\<close>

definition fold_chr :: "nat \<Rightarrow> nat" where
  "fold_chr c =
     (if c = 304 \<or> c = 305 then 105 else if c = 8490 then 107 else if c = 383 then 115
      else lower_chr c)"

fun atom_ok :: "bool \<Rightarrow> atom \<Rightarrow> nat \<Rightarrow> bool" where
  "atom_ok ic (Chr x) c = (if ic then fold_chr c = fold_chr x else c = x)"
| "atom_ok ic (Cls P) c = P c"
| "atom_ok ic Dot c = (c \<noteq> 10)"

fun star_ends :: "bool \<Rightarrow> atom \<Rightarrow> nat option \<Rightarrow> pystr \<Rightarrow> captures \<Rightarrow> position list" where
  "star_ends ic a p [] g = [(p, [], g)]"
| "star_ends ic a p (c # cs) g =
     (if atom_ok ic a c then star_ends ic a (Some c) cs g @ [(p, c # cs, g)]
      else [(p, c # cs, g)])"

fun lazy_ends :: "bool \<Rightarrow> atom \<Rightarrow> nat option \<Rightarrow> pystr \<Rightarrow> captures \<Rightarrow> position list" where
  "lazy_ends ic a p [] g = [(p, [], g)]"
| "lazy_ends ic a p (c # cs) g =
     (if atom_ok ic a c then (p, c # cs, g) # lazy_ends ic a (Some c) cs g
      else [(p, c # cs, g)])"

definition word_before :: "nat option \<Rightarrow> bool" where
  "word_before p = (case p of None \<Rightarrow> False | Some c \<Rightarrow> is_word c)"

definition word_after :: "pystr \<Rightarrow> bool" where
  "word_after s = (case s of [] \<Rightarrow> False | c # cs \<Rightarrow> is_word c)"

fun ends :: "bool \<Rightarrow> regex \<Rightarrow> position \<Rightarrow> position list" where
  "ends ic (Atom a) (p, s, g) =
     (case s of [] \<Rightarrow> [] | c # cs \<Rightarrow> if atom_ok ic a c then [(Some c, cs, g)] else [])"
| "ends ic (Star a) (p, s, g) = star_ends ic a p s g"
| "ends ic (LazyStar a) (p, s, g) = lazy_ends ic a p s g"
| "ends ic (Seq r1 r2) st = concat (map (\<lambda>st'. ends ic r2 st') (ends ic r1 st))"
| "ends ic (Alt r1 r2) st = ends ic r1 st @ ends ic r2 st"
| "ends ic Eps st = [st]"
| "ends ic Bol (p, s, g) = (if p = None \<or> p = Some 10 then [(p, s, g)] else [])"
| "ends ic Eol (p, s, g) =
     (case s of [] \<Rightarrow> [(p, s, g)] | c # cs \<Rightarrow> if c = 10 then [(p, s, g)] else [])"
| "ends ic WordB (p, s, g) = (if word_before p \<noteq> word_after s then [(p, s, g)] else [])"
| "ends ic (Group n r) (p, s, g) =
     map (\<lambda>(p', s', g'). (p', s', g' @ [(n, take (length s - length s') s)]))
         (ends ic r (p, s, g))"

text \<open>
  \<^verbatim>\<open>re.search\<close> succeeds when a match starts at some position of the text.
  \<^verbatim>\<open>re.findall\<close> reports the matches from the left, each search starting where the
  previous match ended; the counter is the number of characters of the current match
  still to be passed. No pattern of the source matches the empty string.
\<close>

fun search_from :: "bool \<Rightarrow> regex \<Rightarrow> nat option \<Rightarrow> pystr \<Rightarrow> bool" where
  "search_from ic r p [] = (ends ic r (p, [], []) \<noteq> [])"
| "search_from ic r p (c # cs) =
     (ends ic r (p, c # cs, []) \<noteq> [] \<or> search_from ic r (Some c) cs)"

definition re_search :: "bool \<Rightarrow> regex \<Rightarrow> pystr \<Rightarrow> bool" where
  "re_search ic r s = search_from ic r None s"

fun findall_from :: "bool \<Rightarrow> regex \<Rightarrow> nat \<Rightarrow> nat option \<Rightarrow> pystr \<Rightarrow> (pystr \<times> captures) list" where
  "findall_from ic r (Suc k) p (c # cs) = findall_from ic r k (Some c) cs"
| "findall_from ic r (Suc k) p [] = []"
| "findall_from ic r 0 p [] =
     (case ends ic r (p, [], []) of [] \<Rightarrow> [] | (p', s', g) # rest \<Rightarrow> [([], g)])"
| "findall_from ic r 0 p (c # cs) =
     (case ends ic r (p, c # cs, []) of
        [] \<Rightarrow> findall_from ic r 0 (Some c) cs
      | (p', s', g) # rest \<Rightarrow>
          (take (length (c # cs) - length s') (c # cs), g)
          # findall_from ic r (length (c # cs) - length s' - 1) (Some c) cs)"

definition findall :: "bool \<Rightarrow> regex \<Rightarrow> pystr \<Rightarrow> (pystr \<times> captures) list" where
  "findall ic r s = findall_from ic r 0 None s"

definition group :: "nat \<Rightarrow> captures \<Rightarrow> pystr" where
  "group n g = (case map_of g n of None \<Rightarrow> [] | Some t \<Rightarrow> t)"

text \<open>Ways of writing patterns.\<close>

definition seqs :: "regex list \<Rightarrow> regex" where
  "seqs rs = foldr Seq rs Eps"

fun alts :: "regex list \<Rightarrow> regex" where
  "alts [] = Eps"
| "alts [r] = r"
| "alts (r # r' # rs) = Alt r (alts (r' # rs))"

definition lit :: "string \<Rightarrow> regex" where
  "lit s = seqs (map (\<lambda>c. Atom (Chr (of_char c))) s)"

definition plus :: "atom \<Rightarrow> regex" where
  "plus a = Seq (Atom a) (Star a)"

definition optional :: "regex \<Rightarrow> regex" where
  "optional r = Alt r Eps"

definition digit :: atom where
  "digit = Cls is_digit"

definition one_of :: "string \<Rightarrow> atom" where
  "one_of s = Cls (\<lambda>c. c \<in> set (asc s))"

section \<open>The scanners (scanner.py, enhanced_scanner.py)\<close>

subsection \<open>Vocabularies\<close>

definition power_verbs :: "pystr list" where
  "power_verbs =
     [asc ''achieved'', asc ''analyzed'', asc ''architected'', asc ''automated'', asc ''built'',
      asc ''collaborated'', asc ''created'', asc ''delivered'', asc ''designed'',
      asc ''developed'', asc ''enhanced'', asc ''executed'', asc ''implemented'',
      asc ''improved'', asc ''increased'', asc ''led'', asc ''managed'', asc ''optimized'',
      asc ''orchestrated'', asc ''produced'', asc ''reduced'', asc ''resolved'',
      asc ''spearheaded'', asc ''streamlined'']"

definition technical_skills :: "pystr list" where
  "technical_skills =
     [asc ''python'', asc ''java'', asc ''javascript'', asc ''docker'', asc ''kubernetes'',
      asc ''aws'', asc ''azure'', asc ''devops'', asc ''ci/cd'', asc ''jenkins'', asc ''git'',
      asc ''linux'', asc ''sql'', asc ''nosql'', asc ''mongodb'', asc ''postgresql'',
      asc ''redis'', asc ''elasticsearch'', asc ''kafka'', asc ''microservices'', asc ''api'',
      asc ''rest'', asc ''graphql'', asc ''terraform'', asc ''ansible'', asc ''prometheus'',
      asc ''grafana'']"

definition soft_skills :: "pystr list" where
  "soft_skills =
     [asc ''leadership'', asc ''communication'', asc ''teamwork'', asc ''problem-solving'',
      asc ''analytical'', asc ''critical thinking'', asc ''adaptability'', asc ''mentoring'',
      asc ''collaboration'', asc ''project management'', asc ''stakeholder management'',
      asc ''cross-functional'']"

definition tier1_verbs :: "pystr list" where
  "tier1_verbs =
     [asc ''architected'', asc ''orchestrated'', asc ''spearheaded'', asc ''pioneered'',
      asc ''transformed'', asc ''revolutionized'', asc ''optimized'', asc ''streamlined'',
      asc ''automated'', asc ''scaled'']"

definition tier2_verbs :: "pystr list" where
  "tier2_verbs =
     [asc ''developed'', asc ''implemented'', asc ''created'', asc ''built'', asc ''designed'',
      asc ''managed'', asc ''led'', asc ''delivered'', asc ''executed'', asc ''coordinated'']"

definition tier3_verbs :: "pystr list" where
  "tier3_verbs =
     [asc ''assisted'', asc ''helped'', asc ''participated'', asc ''supported'',
      asc ''contributed'', asc ''worked'', asc ''involved'', asc ''collaborated'',
      asc ''engaged'', asc ''handled'']"

definition leadership_indicators :: "pystr list" where
  "leadership_indicators =
     [asc ''led team'', asc ''managed'', asc ''supervised'', asc ''mentored'', asc ''coached'',
      asc ''directed'', asc ''oversaw'', asc ''guided'', asc ''trained'', asc ''developed team'']"

definition role_keywords :: "(pystr \<times> pystr list) list" where
  "role_keywords =
     [(asc ''devops'', [asc ''docker'', asc ''kubernetes'', asc ''jenkins'', asc ''terraform'',
                        asc ''ansible'', asc ''aws'', asc ''ci/cd'']),
      (asc ''developer'', [asc ''python'', asc ''java'', asc ''javascript'', asc ''react'',
                           asc ''node.js'', asc ''api'', asc ''database'']),
      (asc ''data'', [asc ''python'', asc ''sql'', asc ''machine learning'', asc ''pandas'',
                      asc ''numpy'', asc ''visualization'']),
      (asc ''manager'', [asc ''leadership'', asc ''team'', asc ''budget'', asc ''strategy'',
                         asc ''stakeholder'', asc ''project'']),
      (asc ''architect'', [asc ''design'', asc ''architecture'', asc ''system'',
                           asc ''scalability'', asc ''microservices''])]"

text \<open>\<^verbatim>\<open>sum(1 for term in vocabulary if term in text)\<close>: each term counts once.\<close>

definition terms_found :: "pystr list \<Rightarrow> pystr \<Rightarrow> pystr list" where
  "terms_found vocabulary text = filter (\<lambda>term. is_in term text) vocabulary"

subsection \<open>The action-verb and the role-alignment standards\<close>

definition tier1_count_of :: "pystr \<Rightarrow> nat" where
  "tier1_count_of text = length (terms_found tier1_verbs (lower text))"

definition check_action_verb_compliance :: "pystr \<Rightarrow> int \<times> pystr list" where
  "check_action_verb_compliance text =
     (let tier1_count = tier1_count_of text in
      if tier1_count \<ge> 5 then (90, [asc ''Excellent use of Tier 1 action verbs''])
      else if tier1_count \<ge> 3
        then (75, [asc ''Good use of action verbs, add more Tier 1 verbs''])
      else (50, [asc ''Need more powerful Tier 1 action verbs'']))"

text \<open>The standard is checked on the text alone: no target role reaches it.\<close>

definition check_alignment_compliance :: "pystr \<Rightarrow> int \<times> pystr list" where
  "check_alignment_compliance text =
     (70, [asc ''Role alignment requires specific target role''])"

subsection \<open>\<^verbatim>\<open>_analyze_role_alignment\<close>\<close>

definition get_alignment_recommendation :: "rat \<Rightarrow> pystr" where
  "get_alignment_recommendation score =
     (if score \<ge> 80 then asc ''Strong alignment with target role''
      else if score \<ge> 60
        then asc ''Good alignment, consider adding more role-specific skills''
      else asc ''Needs better alignment with target role requirements'')"

record alignment =
  ra_target_role :: pystr
  ra_relevant_keywords :: "pystr list"
  ra_matched_keywords :: "pystr list"
  ra_alignment_score :: rat
  ra_recommendation :: pystr

text \<open>The two shapes of the returned dictionary.\<close>

datatype role_alignment = NoTargetRole int pystr | Alignment alignment

definition relevant_keywords_of :: "pystr \<Rightarrow> pystr list" where
  "relevant_keywords_of target_role =
     (let target_lower = lower target_role;
          relevant = concat (map snd (filter (\<lambda>(role_type, kws). is_in role_type target_lower)
                                        role_keywords))
      in if relevant = [] then technical_skills @ soft_skills else relevant)"

definition analyze_role_alignment :: "pystr \<Rightarrow> pystr \<Rightarrow> role_alignment" where
  "analyze_role_alignment text target_role =
     (if target_role = [] then NoTargetRole 50 (asc ''No target role specified'')
      else
        (let relevant_keywords = relevant_keywords_of target_role;
             matched_keywords = terms_found relevant_keywords (lower text);
             alignment_score =
               (of_nat (length matched_keywords) / of_nat (max (length relevant_keywords) 1))
               * 100
         in Alignment
              \<lparr> ra_target_role = target_role,
                ra_relevant_keywords = take 20 relevant_keywords,
                ra_matched_keywords = take 15 matched_keywords,
                ra_alignment_score = alignment_score,
                ra_recommendation = get_alignment_recommendation alignment_score \<rparr>))"

subsection \<open>The result dictionaries of the base scan\<close>

text \<open>
  Nested dictionaries are records; the fields of an inner dictionary carry its key as a
  prefix. Integer scores are \<open>nat\<close> or \<open>int\<close>, float scores are \<open>rat\<close>.
\<close>

record keyword_analysis =
  power_verbs_count :: nat
  power_verbs_score :: nat
  technical_skills_found :: "pystr list"
  technical_skills_count :: nat
  technical_skills_score :: nat
  soft_skills_found :: "pystr list"
  soft_skills_count :: nat
  soft_skills_score :: nat
  job_match_score :: rat
  job_match_matched_count :: nat

record formatting =
  fmt_sections :: "(pystr \<times> bool) list"
  fmt_section_score :: rat
  fmt_bullet_points :: nat
  fmt_bullet_score :: nat
  overall_formatting_score :: rat

record content_quality =
  cq_word_count :: nat
  cq_sentence_count :: nat
  cq_avg_words_per_sentence :: rat
  cq_bullet_points :: nat
  cq_quantified_achievements :: nat
  quality_score :: nat

record ats_compatibility =
  ats_score :: int
  ats_issues :: "pystr list"
  ats_email_found :: bool
  ats_phone_found :: bool

record quantification =
  qa_total_bullets :: nat
  qa_quantified_bullets :: nat
  qa_quantification_rate :: rat
  qa_quantified_examples :: "pystr list"
  qa_score :: rat

record sections =
  sec_keywords :: keyword_analysis
  sec_formatting :: formatting
  sec_content_quality :: content_quality
  sec_ats_compatibility :: ats_compatibility
  sec_quantification :: quantification

subsection \<open>The result dictionaries of the enhanced analysis\<close>

record standard_result =
  std_score :: int
  std_findings :: "pystr list"

record industry_standards =
  is_standards :: "(pystr \<times> standard_result) list"
  overall_compliance_score :: rat
  compliant_standards :: nat
  total_standards :: nat

record verb_hierarchy =
  tier1_count :: nat
  tier2_count :: nat
  tier3_count :: nat
  total_verbs :: nat
  tier_distribution_score :: rat
  vh_recommendation :: pystr

record leadership_analysis =
  leadership_terms :: "pystr list"
  leadership_term_count :: nat
  team_size_mentions :: nat
  budget_mentions :: nat
  leadership_score :: nat

record impact_analysis =
  ia_impact_statements :: "pystr list"
  ia_total_impact_statements :: nat
  ia_high_impact_statements :: nat
  ia_impact_score :: nat

record content_depth =
  cd_total_bullets :: nat
  detailed_bullets :: nat
  weak_bullets :: nat
  avg_bullet_length :: rat
  depth_score :: rat

record presentation =
  presentation_score :: int
  pr_issues :: "pystr list"
  date_format_consistency :: bool
  professional_language :: bool
  bullet_consistency :: bool

record enhanced_analysis =
  ea_industry_standards :: industry_standards
  ea_verb_hierarchy :: verb_hierarchy
  ea_leadership_analysis :: leadership_analysis
  ea_impact_analysis :: impact_analysis
  ea_role_alignment :: role_alignment
  ea_content_depth :: content_depth
  ea_professional_presentation :: presentation

subsection \<open>\<^verbatim>\<open>_calculate_overall_score\<close> and \<^verbatim>\<open>_calculate_enhanced_score\<close>\<close>

definition calculate_overall_score :: "sections \<Rightarrow> int" where
  "calculate_overall_score s =
     (let keyword_score =
            of_nat (power_verbs_score (sec_keywords s)) * (3 / 10)
            + of_nat (technical_skills_score (sec_keywords s)) * (4 / 10)
            + of_nat (soft_skills_score (sec_keywords s)) * (2 / 10)
            + job_match_score (sec_keywords s) * (1 / 10);
          scores =
            [keyword_score * (3 / 10),
             overall_formatting_score (sec_formatting s) * (25 / 100),
             of_nat (quality_score (sec_content_quality s)) * (2 / 10),
             of_int (ats_score (sec_ats_compatibility s)) * (15 / 100),
             qa_score (sec_quantification s) * (1 / 10)]
      in py_int (sum_list scores))"

definition calculate_enhanced_score :: "sections \<Rightarrow> enhanced_analysis \<Rightarrow> int" where
  "calculate_enhanced_score base_sections ea =
     (let base_score =
            sum_list
              [of_nat (power_verbs_score (sec_keywords base_sections)) * (15 / 100),
               of_nat (technical_skills_score (sec_keywords base_sections)) * (20 / 100),
               overall_formatting_score (sec_formatting base_sections) * (15 / 100),
               of_int (ats_score (sec_ats_compatibility base_sections)) * (10 / 100)]
            * (6 / 10);
          enhanced_score =
            sum_list
              [overall_compliance_score (ea_industry_standards ea) * (15 / 100),
               tier_distribution_score (ea_verb_hierarchy ea) * (8 / 100),
               of_nat (leadership_score (ea_leadership_analysis ea)) * (5 / 100),
               of_nat (ia_impact_score (ea_impact_analysis ea)) * (7 / 100),
               depth_score (ea_content_depth ea) * (3 / 100),
               of_int (presentation_score (ea_professional_presentation ea)) * (2 / 100)]
            * (4 / 10)
      in py_int (base_score + enhanced_score))"

section \<open>The report (report.py)\<close>

text \<open>The letter grade of \<^verbatim>\<open>_create_executive_summary\<close>, computed from the enhanced score.\<close>

definition executive_grade :: "int \<Rightarrow> pystr \<times> pystr" where
  "executive_grade enhanced_score =
     (if enhanced_score \<ge> 90 then (asc ''A+'', asc ''Excellent'')
      else if enhanced_score \<ge> 80 then (asc ''A'', asc ''Very Good'')
      else if enhanced_score \<ge> 70 then (asc ''B'', asc ''Good'')
      else if enhanced_score \<ge> 60 then (asc ''C'', asc ''Needs Improvement'')
      else (asc ''D'', asc ''Significant Improvements Required''))"

definition benchmarks :: "(pystr \<times> int) list" where
  "benchmarks =
     [(asc ''industry_average'', 65), (asc ''top_10_percent'', 85),
      (asc ''ats_passing_threshold'', 70), (asc ''interview_likely_threshold'', 80)]"

record benchmark_entry =
  threshold :: int
  current_score :: int
  meets_benchmark :: bool
  points_needed :: int

definition create_benchmark_comparison :: "int \<Rightarrow> (pystr \<times> benchmark_entry) list" where
  "create_benchmark_comparison overall_score =
     map (\<lambda>(benchmark_name, threshold).
            (benchmark_name,
             \<lparr> threshold = threshold, current_score = overall_score,
               meets_benchmark = (overall_score \<ge> threshold),
               points_needed = max 0 (threshold - overall_score) \<rparr>))
         benchmarks"

subsection \<open>Sub-scores within 0 and 100\<close>

definition sub_scores_in_range :: "sections \<Rightarrow> enhanced_analysis \<Rightarrow> bool" where
  "sub_scores_in_range s e \<longleftrightarrow>
     power_verbs_score (sec_keywords s) \<le> 100
     \<and> technical_skills_score (sec_keywords s) \<le> 100
     \<and> 0 \<le> overall_formatting_score (sec_formatting s)
     \<and> overall_formatting_score (sec_formatting s) \<le> 100
     \<and> 0 \<le> ats_score (sec_ats_compatibility s) \<and> ats_score (sec_ats_compatibility s) \<le> 100
     \<and> 0 \<le> overall_compliance_score (ea_industry_standards e)
     \<and> overall_compliance_score (ea_industry_standards e) \<le> 100
     \<and> 0 \<le> tier_distribution_score (ea_verb_hierarchy e)
     \<and> tier_distribution_score (ea_verb_hierarchy e) \<le> 100
     \<and> leadership_score (ea_leadership_analysis e) \<le> 100
     \<and> ia_impact_score (ea_impact_analysis e) \<le> 100
     \<and> 0 \<le> depth_score (ea_content_depth e) \<and> depth_score (ea_content_depth e) \<le> 100
     \<and> 0 \<le> presentation_score (ea_professional_presentation e)
     \<and> presentation_score (ea_professional_presentation e) \<le> 100"

subsection \<open>Bullets and quantification\<close>

text \<open>
  \<^verbatim>\<open>^\s*[\<bullet>\-\*].*$\<close>, \<^verbatim>\<open>\d+[%$]?|\$\d+|\d+\+|\d+x|\d+ years?\<close> and
  \<^verbatim>\<open>\d+[%$]?|\$\d+\<close>.
\<close>

definition bullet_line_re :: regex where
  "bullet_line_re = seqs [Bol, Star (Cls is_space), Atom (Cls is_glyph), Star Dot, Eol]"

definition quantified_re :: regex where
  "quantified_re =
     alts [Seq (plus digit) (optional (Atom (one_of ''%$''))),
           Seq (Atom (Chr 36)) (plus digit),
           Seq (plus digit) (Atom (Chr 43)),
           Seq (plus digit) (Atom (Chr 120)),
           seqs [plus digit, lit '' year'', optional (lit ''s'')]]"

definition amount_re :: regex where
  "amount_re =
     alts [Seq (plus digit) (optional (Atom (one_of ''%$''))),
           Seq (Atom (Chr 36)) (plus digit)]"

definition bullet_lines_of :: "pystr \<Rightarrow> pystr list" where
  "bullet_lines_of text = map fst (findall False bullet_line_re text)"

definition analyze_quantification :: "pystr \<Rightarrow> quantification" where
  "analyze_quantification text =
     (let bullet_lines = bullet_lines_of text;
          quantified_bullets =
            map strip (filter (\<lambda>bullet. re_search True quantified_re bullet) bullet_lines);
          total_bullets = length bullet_lines;
          quantified_count = length quantified_bullets;
          quantification_rate =
            float_mul (float_div (int quantified_count) (int (max total_bullets 1))) 100
      in \<lparr> qa_total_bullets = total_bullets,
           qa_quantified_bullets = quantified_count,
           qa_quantification_rate = quantification_rate,
           qa_quantified_examples = take 5 quantified_bullets,
           qa_score = quantification_rate \<rparr>)"

text \<open>
  \<^verbatim>\<open>f"{x:.1f}"\<close> for a float that is not negative: the nearest number with one decimal,
  a tie going to the even digit.
\<close>

definition format_1f :: "rat \<Rightarrow> pystr" where
  "format_1f x =
     (let t = x * 10; f = nat \<lfloor>t\<rfloor>; d = t - of_nat f;
          n = (if d > 1 / 2 \<or> (d = 1 / 2 \<and> odd f) then f + 1 else f)
      in str_of_nat (n div 10) @ asc ''.'' @ str_of_nat (n mod 10))"

definition quantified_lines_of :: "pystr \<Rightarrow> pystr list" where
  "quantified_lines_of text =
     filter (\<lambda>bullet. re_search False amount_re bullet) (bullet_lines_of text)"

text \<open>The rate of the standard; the source computes it when there is a bullet line.\<close>

definition compliance_rate :: "pystr \<Rightarrow> rat" where
  "compliance_rate text =
     float_mul (float_div (int (length (quantified_lines_of text)))
                          (int (length (bullet_lines_of text)))) 100"

definition check_quantification_compliance :: "pystr \<Rightarrow> int \<times> pystr list" where
  "check_quantification_compliance text =
     (if bullet_lines_of text = [] then (0, [asc ''No bullet points found''])
      else
        (let quantification_rate = compliance_rate text in
         if quantification_rate \<ge> 80 then (95, [asc ''Excellent quantification rate''])
         else if quantification_rate \<ge> 60
           then (80, [asc ''Good quantification, aim for 80%+ of bullets''])
         else (py_int quantification_rate,
               [asc ''Only '' @ format_1f quantification_rate
                @ asc ''% of bullets quantified''])))"

subsection \<open>What a scan reads from outside the text\<close>

text \<open>
  A scan reads the clock for its timestamp, and \<^verbatim>\<open>list(set(...))\<close> lists a set of
  strings in an order that depends on the hash seed of the process. Both are inputs of
  the model: \<open>str_hash\<close> is the hash function of the run, and a set is listed by
  ascending hash, so that every order of the elements arises from some hash function.
\<close>

record environment =
  clock :: pystr
  str_hash :: "pystr \<Rightarrow> nat"

definition list_of_set :: "environment \<Rightarrow> pystr list \<Rightarrow> pystr list" where
  "list_of_set env xs = sort_key (str_hash env) (remdups xs)"

subsection \<open>The analyses of the base scan\<close>

text \<open>\<^verbatim>\<open>re.split\<close> on a pattern without groups that does not match the empty string.\<close>

fun split_from :: "bool \<Rightarrow> regex \<Rightarrow> nat \<Rightarrow> nat option \<Rightarrow> pystr \<Rightarrow> pystr \<Rightarrow> pystr list" where
  "split_from ic r (Suc k) p cur (c # cs) = split_from ic r k (Some c) cur cs"
| "split_from ic r (Suc k) p cur [] = [cur]"
| "split_from ic r 0 p cur [] = [cur]"
| "split_from ic r 0 p cur (c # cs) =
     (case ends ic r (p, c # cs, []) of
        [] \<Rightarrow> split_from ic r 0 (Some c) (cur @ [c]) cs
      | (p', s', g) # rest \<Rightarrow>
          if length s' < length (c # cs)
          then cur # split_from ic r (length (c # cs) - length s' - 1) (Some c) [] cs
          else split_from ic r 0 (Some c) (cur @ [c]) cs)"

definition re_split :: "bool \<Rightarrow> regex \<Rightarrow> pystr \<Rightarrow> pystr list" where
  "re_split ic r s = split_from ic r 0 None [] s"

definition rep :: "nat \<Rightarrow> atom \<Rightarrow> regex" where
  "rep n a = seqs (replicate n (Atom a))"

text \<open>\<^verbatim>\<open>\b[a-z]{3,}\b\<close>\<close>

definition word3_re :: regex where
  "word3_re =
     (let az = Cls (\<lambda>c. 97 \<le> c \<and> c \<le> 122) in seqs [WordB, rep 3 az, Star az, WordB])"

definition extract_jd_keywords :: "environment \<Rightarrow> pystr \<Rightarrow> pystr list" where
  "extract_jd_keywords env jd =
     (let jd_lower = lower jd;
          all_keywords = technical_skills @ soft_skills;
          job_terms = map fst (findall False word3_re jd_lower);
          technical_terms =
            filter (\<lambda>term. term \<in> set [asc ''python'', asc ''java'', asc ''docker'', asc ''aws'',
                                          asc ''kubernetes'']) job_terms
      in list_of_set env (all_keywords @ technical_terms))"

definition analyze_keywords :: "environment \<Rightarrow> pystr \<Rightarrow> pystr \<Rightarrow> keyword_analysis" where
  "analyze_keywords env text jd =
     (let cv_lower = lower text;
          power_verb_count = length (terms_found power_verbs cv_lower);
          tech_skills_found = terms_found technical_skills cv_lower;
          soft_skills_found = terms_found soft_skills cv_lower;
          jd_keywords = extract_jd_keywords env jd;
          matched_keywords = filter (\<lambda>kw. is_in kw cv_lower) jd_keywords;
          jd_match_score =
            (if jd \<noteq> []
             then of_nat (length matched_keywords) / of_nat (max (length jd_keywords) 1) * 100
             else 0)
      in \<lparr> power_verbs_count = power_verb_count,
           power_verbs_score = min (power_verb_count * 10) 100,
           technical_skills_found = tech_skills_found,
           technical_skills_count = length tech_skills_found,
           technical_skills_score = min (length tech_skills_found * 5) 100,
           soft_skills_found = soft_skills_found,
           soft_skills_count = length soft_skills_found,
           soft_skills_score = min (length soft_skills_found * 10) 100,
           job_match_score = jd_match_score,
           job_match_matched_count = (if jd \<noteq> [] then length matched_keywords else 0) \<rparr>)"

text \<open>The section patterns are searched in the whole text with \<^verbatim>\<open>re.I\<close>.\<close>

definition formatting_patterns :: "(pystr \<times> regex) list" where
  "formatting_patterns =
     [(asc ''contact'', Group 1 (alts [lit ''email'', lit ''phone'', lit ''linkedin''])),
      (asc ''summary'', Group 1 (alts [lit ''summary'', lit ''profile'', lit ''objective''])),
      (asc ''experience'', Group 1 (alts [lit ''experience'', lit ''work'', lit ''employment''])),
      (asc ''education'', lit ''education''),
      (asc ''skills'', lit ''skills'')]"

definition analyze_formatting :: "pystr \<Rightarrow> formatting" where
  "analyze_formatting text =
     (let lines = split_lines text;
          sections_found = map (\<lambda>(name, r). (name, re_search True r text)) formatting_patterns;
          section_score =
            of_nat (length (filter snd sections_found)) / of_nat (length sections_found) * 100;
          bullet_count = length (filter is_bullet_line lines);
          bullet_score = min (bullet_count * 5) 100
      in \<lparr> fmt_sections = sections_found,
           fmt_section_score = section_score,
           fmt_bullet_points = bullet_count,
           fmt_bullet_score = bullet_score,
           overall_formatting_score = (section_score + of_nat bullet_score) / 2 \<rparr>)"

text \<open>\<^verbatim>\<open>[.!?]+\<close> and \<^verbatim>\<open>^\s*[\<bullet>\-\*]\<close>\<close>

definition sentence_end_re :: regex where
  "sentence_end_re = plus (one_of ''.!?'')"

definition bullet_start_re :: regex where
  "bullet_start_re = seqs [Bol, Star (Cls is_space), Atom (Cls is_glyph)]"

definition analyze_content_quality :: "pystr \<Rightarrow> content_quality" where
  "analyze_content_quality text =
     (let word_count = length (py_split text);
          sentences = re_split False sentence_end_re text;
          sentence_count = length (filter (\<lambda>s. strip s \<noteq> []) sentences);
          bullet_points = length (findall False bullet_start_re text);
          quantified_achievements = length (findall False amount_re text)
      in \<lparr> cq_word_count = word_count,
           cq_sentence_count = sentence_count,
           cq_avg_words_per_sentence = of_nat word_count / of_nat (max sentence_count 1),
           cq_bullet_points = bullet_points,
           cq_quantified_achievements = quantified_achievements,
           quality_score = min (bullet_points * 5 + quantified_achievements * 10) 100 \<rparr>)"

text \<open>
  \<^verbatim>\<open>[^\w\s\-.,!?()%$]\<close>, \<^verbatim>\<open>[\w.-]+@[\w.-]+\.\w+\<close> and
  \<^verbatim>\<open>\(?\d{3}\)?[-.]?\d{3}[-.]?\d{4}\<close>
\<close>

definition special_re :: regex where
  "special_re =
     Atom (Cls (\<lambda>c. \<not> (is_word c \<or> is_space c \<or> c \<in> set (asc ''-.,!?()%$''))))"

definition email_re :: regex where
  "email_re =
     (let name = Cls (\<lambda>c. is_word c \<or> c = 46 \<or> c = 45)
      in seqs [plus name, Atom (Chr 64), plus name, Atom (Chr 46), plus (Cls is_word)])"

definition phone_re :: regex where
  "phone_re =
     seqs [optional (Atom (Chr 40)), rep 3 digit, optional (Atom (Chr 41)),
           optional (Atom (one_of ''-.'')), rep 3 digit, optional (Atom (one_of ''-.'')),
           rep 4 digit]"

definition analyze_ats_compatibility :: "pystr \<Rightarrow> ats_compatibility" where
  "analyze_ats_compatibility text =
     (let issues0 = [];
          score0 = (100 :: int);
          has_tab = (9 \<in> set text);
          issues1 = (if has_tab then issues0 @ [asc ''Contains tab characters''] else issues0);
          score1 = (if has_tab then score0 - 10 else score0);
          special_char_count = length (findall False special_re text);
          issues2 = (if special_char_count > 50
                     then issues1 @ [asc ''Excessive special characters''] else issues1);
          score2 = (if special_char_count > 50 then score1 - 15 else score1);
          email_found = re_search False email_re text;
          phone_found = re_search False phone_re text;
          issues3 = (if \<not> email_found
                     then issues2 @ [asc ''No email address found''] else issues2);
          score3 = (if \<not> email_found then score2 - 20 else score2);
          issues4 = (if \<not> phone_found
                     then issues3 @ [asc ''No phone number found''] else issues3);
          score4 = (if \<not> phone_found then score3 - 10 else score3)
      in \<lparr> ats_score = max score4 0, ats_issues = issues4,
           ats_email_found = email_found, ats_phone_found = phone_found \<rparr>)"

subsection \<open>\<^verbatim>\<open>_generate_recommendations\<close> and \<^verbatim>\<open>scan_cv\<close>\<close>

definition generate_recommendations :: "sections \<Rightarrow> pystr list" where
  "generate_recommendations s =
     take 10
       ((if power_verbs_count (sec_keywords s) < 5
         then [asc ''Add more power verbs to strengthen impact statements''] else [])
        @ (if technical_skills_count (sec_keywords s) < 8
           then [asc ''Include more relevant technical skills from your experience''] else [])
        @ (if \<not> list_ex (\<lambda>(name, present). name = asc ''summary'' \<and> present)
                    (fmt_sections (sec_formatting s))
           then [asc ''Add a professional summary or objective section''] else [])
        @ (if fmt_bullet_points (sec_formatting s) < 10
           then [asc ''Use more bullet points to improve readability''] else [])
        @ (if cq_quantified_achievements (sec_content_quality s) < 5
           then [asc ''Add more quantified achievements with specific numbers and results'']
           else [])
        @ map (\<lambda>issue. asc ''Fix ATS issue: '' @ issue) (ats_issues (sec_ats_compatibility s))
        @ (if qa_quantification_rate (sec_quantification s) < 60
           then [asc ''Quantify more of your achievements with specific metrics and numbers'']
           else []))"

text \<open>
  The scan of a text that has been read from the file. The result holds the timestamp
  taken from the clock.
\<close>

record scan_result =
  timestamp :: pystr
  overall_score :: int
  scan_sections :: sections
  recommendations :: "pystr list"

definition analyze_sections :: "environment \<Rightarrow> pystr \<Rightarrow> pystr \<Rightarrow> sections" where
  "analyze_sections env text jd =
     \<lparr> sec_keywords = analyze_keywords env text jd,
       sec_formatting = analyze_formatting text,
       sec_content_quality = analyze_content_quality text,
       sec_ats_compatibility = analyze_ats_compatibility text,
       sec_quantification = analyze_quantification text \<rparr>"

definition scan_cv :: "environment \<Rightarrow> pystr \<Rightarrow> pystr \<Rightarrow> scan_result" where
  "scan_cv env text jd =
     (let s = analyze_sections env text jd
      in \<lparr> timestamp = clock env,
           overall_score = calculate_overall_score s,
           scan_sections = s,
           recommendations = generate_recommendations s \<rparr>)"

subsection \<open>The analyses of the enhanced scan\<close>

definition get_verb_recommendation :: "nat \<Rightarrow> nat \<Rightarrow> nat \<Rightarrow> pystr" where
  "get_verb_recommendation tier1 tier2 tier3 =
     (if tier1 \<ge> 5 then asc ''Excellent use of powerful action verbs''
      else if tier1 \<ge> 3 then asc ''Good verb usage, consider adding more Tier 1 verbs''
      else asc ''Focus on using more impactful Tier 1 action verbs'')"

definition analyze_verb_hierarchy :: "pystr \<Rightarrow> verb_hierarchy" where
  "analyze_verb_hierarchy text =
     (let cv_lower = lower text;
          t1 = length (terms_found tier1_verbs cv_lower);
          t2 = length (terms_found tier2_verbs cv_lower);
          t3 = length (terms_found tier3_verbs cv_lower);
          total = t1 + t2 + t3;
          tier_score =
            (if total > 0
             then of_nat (t1 * 3 + t2 * 2 + t3 * 1) / of_nat (total * 3) * 100 else 0)
      in \<lparr> tier1_count = t1, tier2_count = t2, tier3_count = t3, total_verbs = total,
           tier_distribution_score = tier_score,
           vh_recommendation = get_verb_recommendation t1 t2 t3 \<rparr>)"

text \<open>\<^verbatim>\<open>team of (\d+)|led (\d+)\<close> and \<^verbatim>\<open>\$[\d,]+|budget\<close>\<close>

definition team_size_re :: regex where
  "team_size_re =
     Alt (Seq (lit ''team of '') (Group 1 (plus digit)))
         (Seq (lit ''led '') (Group 2 (plus digit)))"

definition budget_re :: regex where
  "budget_re =
     Alt (Seq (Atom (Chr 36)) (plus (Cls (\<lambda>c. is_digit c \<or> c = 44)))) (lit ''budget'')"

definition analyze_leadership_indicators :: "pystr \<Rightarrow> leadership_analysis" where
  "analyze_leadership_indicators text =
     (let cv_lower = lower text;
          terms = terms_found leadership_indicators cv_lower;
          team_size_count = length (findall False team_size_re cv_lower);
          budget_count = length (findall False budget_re cv_lower)
      in \<lparr> leadership_terms = terms,
           leadership_term_count = length terms,
           team_size_mentions = team_size_count,
           budget_mentions = budget_count,
           leadership_score =
             min (length terms * 15 + team_size_count * 20 + budget_count * 10) 100 \<rparr>)"

text \<open>
  The four impact patterns, searched with \<^verbatim>\<open>re.IGNORECASE\<close>:
  \<^verbatim>\<open>(reduced|decreased|cut).*?(\d+%|\d+)\<close>,
  \<^verbatim>\<open>(increased|improved|grew|boosted).*?(\d+%|\d+)\<close>,
  \<^verbatim>\<open>(saved|generated).*?\$([\d,]+)\<close>,
  \<^verbatim>\<open>(achieved|delivered).*?(\d+%|\d+)\<close>.
\<close>

definition percent_or_number :: regex where
  "percent_or_number = Alt (Seq (plus digit) (Atom (Chr 37))) (plus digit)"

definition impact_patterns :: "regex list" where
  "impact_patterns =
     [seqs [Group 1 (alts [lit ''reduced'', lit ''decreased'', lit ''cut'']), LazyStar Dot,
            Group 2 percent_or_number],
      seqs [Group 1 (alts [lit ''increased'', lit ''improved'', lit ''grew'', lit ''boosted'']),
            LazyStar Dot, Group 2 percent_or_number],
      seqs [Group 1 (alts [lit ''saved'', lit ''generated'']), LazyStar Dot, Atom (Chr 36),
            Group 2 (plus (Cls (\<lambda>c. is_digit c \<or> c = 44)))],
      seqs [Group 1 (alts [lit ''achieved'', lit ''delivered'']), LazyStar Dot,
            Group 2 percent_or_number]]"

definition analyze_impact_statements :: "pystr \<Rightarrow> impact_analysis" where
  "analyze_impact_statements text =
     (let statements =
            concat (map (\<lambda>pattern.
                           map (\<lambda>(m, g). join (asc '' '') [group 1 g, group 2 g])
                               (findall True pattern text))
                        impact_patterns);
          high_impact_count =
            length (filter (\<lambda>stmt. list_ex (\<lambda>term. is_in term (lower stmt))
                                       [asc ''million'', asc ''$'', asc ''%''])
                           statements)
      in \<lparr> ia_impact_statements = take 10 statements,
           ia_total_impact_statements = length statements,
           ia_high_impact_statements = high_impact_count,
           ia_impact_score = min (length statements * 20 + high_impact_count * 10) 100 \<rparr>)"

definition analyze_content_depth :: "pystr \<Rightarrow> content_depth" where
  "analyze_content_depth text =
     (let bullet_lines = filter is_bullet_line (split_lines text);
          detailed = length (filter (\<lambda>b. length (py_split b) \<ge> 12) bullet_lines);
          weak = length (filter (\<lambda>b. \<not> length (py_split b) \<ge> 12 \<and> length (py_split b) \<le> 4)
                                bullet_lines);
          avg_length =
            of_nat (sum_list (map (\<lambda>b. length (py_split b)) bullet_lines))
            / of_nat (max (length bullet_lines) 1);
          score = min (of_nat (detailed * 15) - of_nat (weak * 5) + avg_length * 2) (100 :: rat)
      in \<lparr> cd_total_bullets = length bullet_lines, detailed_bullets = detailed,
           weak_bullets = weak, avg_bullet_length = avg_length,
           depth_score = max score 0 \<rparr>)"

text \<open>\<^verbatim>\<open>\d{4}|\d{1,2}/\d{4}|\w+ \d{4}\<close> and \<^verbatim>\<open>^\s*([\<bullet>\-\*])\<close>\<close>

definition date_re :: regex where
  "date_re =
     alts [rep 4 digit,
           seqs [Atom digit, optional (Atom digit), Atom (Chr 47), rep 4 digit],
           seqs [plus (Cls is_word), Atom (Chr 32), rep 4 digit]]"

definition bullet_glyph_re :: regex where
  "bullet_glyph_re = seqs [Bol, Star (Cls is_space), Group 1 (Atom (Cls is_glyph))]"

definition unprofessional_terms :: "pystr list" where
  "unprofessional_terms =
     [asc ''awesome'', asc ''cool'', asc ''stuff'', asc ''things'', asc ''guys'']"

definition analyze_presentation :: "pystr \<Rightarrow> presentation" where
  "analyze_presentation text =
     (let date_formats = length (remdups (map fst (findall False date_re text)));
          unprofessional_count = length (terms_found unprofessional_terms (lower text));
          bullet_formats =
            length (remdups (map (\<lambda>(m, g). group 1 g) (findall False bullet_glyph_re text)));
          score0 = (100 :: int);
          score1 = (if date_formats > 2 then score0 - 15 else score0);
          issues1 = (if date_formats > 2 then [asc ''Inconsistent date formatting''] else []);
          score2 = (if unprofessional_count > 0
                    then score1 - int unprofessional_count * 10 else score1);
          issues2 = (if unprofessional_count > 0
                     then issues1 @ [str_of_nat unprofessional_count
                                     @ asc '' unprofessional terms found'']
                     else issues1);
          score3 = (if bullet_formats > 1 then score2 - 10 else score2);
          issues3 = (if bullet_formats > 1
                     then issues2 @ [asc ''Inconsistent bullet point formatting''] else issues2)
      in \<lparr> presentation_score = max score3 0, pr_issues = issues3,
           date_format_consistency = (date_formats \<le> 2),
           professional_language = (unprofessional_count = 0),
           bullet_consistency = (bullet_formats \<le> 1) \<rparr>)"

subsection \<open>The seven standards\<close>

definition check_ats_formatting_compliance :: "pystr \<Rightarrow> int \<times> pystr list" where
  "check_ats_formatting_compliance text =
     (let has_tab = (9 \<in> set text);
          issues1 = (if has_tab then [asc ''Remove tab characters''] else []);
          score1 = (if has_tab then 100 - 20 else (100 :: int));
          no_email = (\<not> re_search False email_re text);
          issues2 = (if no_email then issues1 @ [asc ''Add proper email format''] else issues1);
          score2 = (if no_email then score1 - 30 else score1)
      in (max score2 0, if issues2 \<noteq> [] then issues2 else [asc ''ATS formatting compliant'']))"

definition check_keyword_compliance :: "pystr \<Rightarrow> int \<times> pystr list" where
  "check_keyword_compliance text =
     (let tech_count = length (terms_found technical_skills (lower text)) in
      if tech_count \<ge> 12 then (90, [asc ''Strong keyword presence''])
      else if tech_count \<ge> 8 then (75, [asc ''Good keyword coverage''])
      else (50, [asc ''Need more relevant technical keywords'']))"

definition check_presentation_compliance :: "pystr \<Rightarrow> int \<times> pystr list" where
  "check_presentation_compliance text = (presentation_score (analyze_presentation text), [])"

definition check_impact_compliance :: "pystr \<Rightarrow> int \<times> pystr list" where
  "check_impact_compliance text = (int (ia_impact_score (analyze_impact_statements text)), [])"

text \<open>
  Modelled from the spec: the module \<^verbatim>\<open>industry_standards\<close> is not among the sources.
  Its \<^verbatim>\<open>get_all_standards\<close> returns a dictionary whose keys are the names of the seven
  standards of the spec. The scanner uses the keys only, so the catalog is the list of
  the keys in the order of the dictionary, and every function below takes it as an
  argument; \<open>spec_standards\<close> is the catalog that the spec describes.
\<close>

definition spec_standards :: "pystr list" where
  "spec_standards =
     [asc ''action_verb_hierarchy'', asc ''quantification_standard'', asc ''ats_formatting'',
      asc ''keyword_optimization'', asc ''professional_presentation'',
      asc ''impact_demonstration'', asc ''role_alignment'']"

definition check_standard :: "pystr \<Rightarrow> pystr \<Rightarrow> int \<times> pystr list" where
  "check_standard standard_name text =
     (if standard_name = asc ''action_verb_hierarchy'' then check_action_verb_compliance text
      else if standard_name = asc ''quantification_standard''
        then check_quantification_compliance text
      else if standard_name = asc ''ats_formatting'' then check_ats_formatting_compliance text
      else if standard_name = asc ''keyword_optimization'' then check_keyword_compliance text
      else if standard_name = asc ''professional_presentation''
        then check_presentation_compliance text
      else if standard_name = asc ''impact_demonstration'' then check_impact_compliance text
      else if standard_name = asc ''role_alignment'' then check_alignment_compliance text
      else (0, []))"

text \<open>An empty catalog makes the mean divide by zero.\<close>

definition analyze_industry_standards ::
  "pystr list \<Rightarrow> pystr \<Rightarrow> py_exception + industry_standards" where
  "analyze_industry_standards catalog text =
     (let results =
            map (\<lambda>standard_name.
                   (standard_name,
                    \<lparr> std_score = fst (check_standard standard_name text),
                      std_findings = snd (check_standard standard_name text) \<rparr>))
                catalog
      in if results = [] then Inl ZeroDivisionError
         else Inr \<lparr> is_standards = results,
                    overall_compliance_score =
                      of_int (sum_list (map (\<lambda>(name, r). std_score r) results))
                      / of_nat (length results),
                    compliant_standards =
                      length (filter (\<lambda>(name, r). std_score r \<ge> 80) results),
                    total_standards = length results \<rparr>)"

subsection \<open>\<^verbatim>\<open>_generate_enhanced_recommendations\<close> and \<^verbatim>\<open>enhanced_scan\<close>\<close>

definition generate_enhanced_recommendations :: "sections \<Rightarrow> enhanced_analysis \<Rightarrow> pystr list" where
  "generate_enhanced_recommendations base_sections ea =
     take 12
       (map (\<lambda>(standard_name, r).
               asc ''Improve '' @ replace (asc ''_'') (asc '' '') standard_name @ asc '': ''
               @ (case std_findings r of
                    [] \<Rightarrow> asc ''Review standard requirements'' | finding # rest \<Rightarrow> finding))
            (filter (\<lambda>(standard_name, r). std_score r < 70)
                    (is_standards (ea_industry_standards ea)))
        @ (if tier1_count (ea_verb_hierarchy ea) < 3
           then [asc ''Use more Tier 1 action verbs (architected, orchestrated, spearheaded)'']
           else [])
        @ (if leadership_score (ea_leadership_analysis ea) < 50
           then [asc ''Add more leadership indicators and team management examples''] else [])
        @ (if ia_impact_score (ea_impact_analysis ea) < 60
           then [asc ''Include more quantified impact statements with specific results'']
           else [])
        @ (if weak_bullets (ea_content_depth ea) > 3
           then [asc ''Expand brief bullet points with more detailed descriptions''] else [])
        @ map (\<lambda>issue. asc ''Fix presentation issue: '' @ issue)
              (pr_issues (ea_professional_presentation ea)))"

record enhanced_result =
  er_scan :: scan_result
  er_enhanced_analysis :: enhanced_analysis
  enhanced_score :: int
  enhanced_recommendations :: "pystr list"

definition enhanced_scan ::
  "environment \<Rightarrow> pystr list \<Rightarrow> pystr \<Rightarrow> pystr \<Rightarrow> pystr \<Rightarrow> py_exception + enhanced_result" where
  "enhanced_scan env catalog text jd target_role =
     (let results = scan_cv env text jd in
      case analyze_industry_standards catalog text of
        Inl e \<Rightarrow> Inl e
      | Inr standards \<Rightarrow>
          (let ea = \<lparr> ea_industry_standards = standards,
                      ea_verb_hierarchy = analyze_verb_hierarchy text,
                      ea_leadership_analysis = analyze_leadership_indicators text,
                      ea_impact_analysis = analyze_impact_statements text,
                      ea_role_alignment = analyze_role_alignment text target_role,
                      ea_content_depth = analyze_content_depth text,
                      ea_professional_presentation = analyze_presentation text \<rparr>
           in Inr \<lparr> er_scan = results,
                     er_enhanced_analysis = ea,
                     enhanced_score = calculate_enhanced_score (scan_sections results) ea,
                     enhanced_recommendations =
                       generate_enhanced_recommendations (scan_sections results) ea \<rparr>))"

section \<open>Inputs of the scenarios\<close>

definition scenario_text :: pystr where
  "scenario_text =
     asc ''- worked on migrating servers'' @ [newline] @ asc ''- helped with deployment''"

definition scenario_context :: opt_context where
  "scenario_context =
     \<lparr> cv_text = scenario_text, job_description = [], optimization_level = asc ''balanced'' \<rparr>"

definition scenario_result :: opt_result where
  "scenario_result =
     \<lparr> optimized_content =
         asc ''- developed migrating servers'' @ [newline] @ asc ''- contributed to deployment'',
       improvements =
         [\<lparr> section_name = asc ''experience'', original = asc ''- worked on migrating servers'',
             improved = asc ''- developed migrating servers'',
             reason = asc ''Replaced weak verb '' @ [dquote] @ asc ''worked on'' @ [dquote]
                      @ asc '' with stronger '' @ [dquote] @ asc ''developed'' @ [dquote],
             impact_score = 6 \<rparr>,
          \<lparr> section_name = asc ''experience'', original = asc ''- helped with deployment'',
             improved = asc ''- contributed to deployment'',
             reason = asc ''Replaced weak verb '' @ [dquote] @ asc ''helped with'' @ [dquote]
                      @ asc '' with stronger '' @ [dquote] @ asc ''contributed to'' @ [dquote],
             impact_score = 6 \<rparr>],
       summary = asc ''Applied 2 rule-based improvements'',
       fallback_used = Some True \<rparr>"

definition weak_text :: pystr where
  "weak_text = asc ''- led team''"

definition strong_text :: pystr where
  "strong_text = asc ''- architected 3 systems''"

definition default_llm_config :: llm_config where
  "default_llm_config =
     \<lparr> provider = asc ''ollama'', model = asc ''deepseek-r1:8b'',
       base_url = asc ''http://localhost:11434'' \<rparr>"

text \<open>
  An endpoint whose first request fails and whose later requests would answer, one that
  answers with a value that is not a string, and a decoder that rejects its input.
\<close>

definition flaky_network :: network where
  "flaky_network =
     \<lparr> endpoint = (\<lambda>n. if n = 0 then Inl RequestException else Inr (JStr (asc ''{}''))),
       calls = 0 \<rparr>"

definition null_network :: network where
  "null_network = \<lparr> endpoint = (\<lambda>n. Inr JNull), calls = 0 \<rparr>"

text \<open>An endpoint that answers with text between braces that is not JSON.\<close>

definition malformed_network :: network where
  "malformed_network = \<lparr> endpoint = (\<lambda>n. Inr (JStr (asc ''{broken}''))), calls = 0 \<rparr>"

definition rejecting_loads :: "pystr \<Rightarrow> py_exception + (pystr \<times> json) list" where
  "rejecting_loads s = Inl JSONDecodeError"

text \<open>Scan results in which every sub-score is 100.\<close>

definition full_sections :: sections where
  "full_sections =
     \<lparr> sec_keywords =
         \<lparr> power_verbs_count = 10, power_verbs_score = 100, technical_skills_found = [],
           technical_skills_count = 20, technical_skills_score = 100, soft_skills_found = [],
           soft_skills_count = 10, soft_skills_score = 100, job_match_score = 100,
           job_match_matched_count = 39 \<rparr>,
       sec_formatting =
         \<lparr> fmt_sections = [], fmt_section_score = 100, fmt_bullet_points = 20,
           fmt_bullet_score = 100, overall_formatting_score = 100 \<rparr>,
       sec_content_quality =
         \<lparr> cq_word_count = 400, cq_sentence_count = 20, cq_avg_words_per_sentence = 20,
           cq_bullet_points = 20, cq_quantified_achievements = 10,
           quality_score = 100 \<rparr>,
       sec_ats_compatibility =
         \<lparr> ats_score = 100, ats_issues = [], ats_email_found = True, ats_phone_found = True \<rparr>,
       sec_quantification =
         \<lparr> qa_total_bullets = 20, qa_quantified_bullets = 20, qa_quantification_rate = 100,
           qa_quantified_examples = [], qa_score = 100 \<rparr> \<rparr>"

definition full_enhanced :: enhanced_analysis where
  "full_enhanced =
     \<lparr> ea_industry_standards =
         \<lparr> is_standards = [], overall_compliance_score = 100, compliant_standards = 7,
           total_standards = 7 \<rparr>,
       ea_verb_hierarchy =
         \<lparr> tier1_count = 10, tier2_count = 0, tier3_count = 0, total_verbs = 10,
           tier_distribution_score = 100, vh_recommendation = [] \<rparr>,
       ea_leadership_analysis =
         \<lparr> leadership_terms = [], leadership_term_count = 7, team_size_mentions = 0,
           budget_mentions = 0, leadership_score = 100 \<rparr>,
       ea_impact_analysis =
         \<lparr> ia_impact_statements = [], ia_total_impact_statements = 5,
           ia_high_impact_statements = 0, ia_impact_score = 100 \<rparr>,
       ea_role_alignment = NoTargetRole 50 (asc ''No target role specified''),
       ea_content_depth =
         \<lparr> cd_total_bullets = 20, detailed_bullets = 20, weak_bullets = 0,
           avg_bullet_length = 12, depth_score = 100 \<rparr>,
       ea_professional_presentation =
         \<lparr> presentation_score = 100, pr_issues = [], date_format_consistency = True,
           professional_language = True, bullet_consistency = True \<rparr> \<rparr>"

text \<open>A text that holds the first \<open>k\<close> tier-1 verbs, and a CV for a DevOps role.\<close>

definition tier1_sample :: "nat \<Rightarrow> pystr" where
  "tier1_sample k = join (asc '' '') (take k tier1_verbs)"


text \<open>
  Ten bullets of which eight hold a numeral, six bullets of which one does, three
  bullets of which one does, and a text without bullets.
\<close>

definition eight_of_ten :: pystr where
  "eight_of_ten = join [newline]
     [asc ''- 1'', asc ''- 2'', asc ''- 3'', asc ''- 4'', asc ''- 5'', asc ''- 6'', asc ''- 7'',
      asc ''- 8'', asc ''- a'', asc ''- b'']"

definition one_of_six :: pystr where
  "one_of_six = join [newline]
     [asc ''- a'', asc ''- b'', asc ''- c'', asc ''- d'', asc ''- e'', asc ''- 5x'']"

definition one_of_three :: pystr where
  "one_of_three = join [newline] [asc ''- a'', 8226 # asc '' 3 years'', asc ''* c'']"

definition no_bullets :: pystr where
  "no_bullets = asc ''Summary: 5 years''"

text \<open>
  Fifty bullets of which the first twenty-nine hold a numeral, and two bullets of which
  the first holds the Arabic-Indic digit three (U+0663) and no other digit.
\<close>

definition twenty_nine_of_fifty :: pystr where
  "twenty_nine_of_fifty =
     join [newline] (replicate 29 (asc ''- 1'') @ replicate 21 (asc ''- a''))"

definition arabic_digit :: pystr where
  "arabic_digit = join [newline] [asc ''- '' @ [1635], asc ''- a'']"

text \<open>
  Two runs: different clock readings, and hash functions that list a set of strings in
  opposite orders. A short CV and a job description.
\<close>

definition run_a :: environment where
  "run_a = \<lparr> clock = asc ''2024-01-01T09:00:00'', str_hash = length \<rparr>"

definition run_b :: environment where
  "run_b = \<lparr> clock = asc ''2025-06-30T17:30:00'', str_hash = (\<lambda>s. 100 - length s) \<rparr>"

definition sample_cv :: pystr where
  "sample_cv = join [newline]
     [asc ''Summary'', asc ''- Led team of 5 in Python'', asc ''Email: a@b.co'']"

definition sample_jd :: pystr where
  "sample_jd = asc ''python and aws''"

section \<open>Verified properties\<close>

text \<open>The definitions that a concrete evaluation unfolds.\<close>

lemma is_digit_below: "c < 1632 \<Longrightarrow> is_digit c \<longleftrightarrow> 48 \<le> c \<and> c \<le> 57"
  by (auto simp: is_digit_def decimal_zeros_def)

lemma is_digit_samples: "is_digit 1635" "\<not> is_digit 8226"
  by (simp_all add: is_digit_def decimal_zeros_def)

lemmas py_eval =
  asc_def newline_def dquote_def split_lines_def is_bullet_line_def strip_def is_space_def
  is_glyph_def is_digit_below is_digit_samples lower_def lower_chr_def fold_chr_def py_split_def
  replace_def Let_def

subsection \<open>The rule-based fallback on the two-line scenario\<close>

lemma fallback_scenario_value: "fallback_optimization scenario_context = scenario_result"
  by (simp add: fallback_optimization_def scenario_context_def scenario_text_def
      scenario_result_def verb_replacements_def str_of_nat_def py_eval)

text \<open>
  C6. On the document \<^verbatim>\<open>"- worked on migrating servers\n- helped with deployment"\<close> the
  rule-based fallback returns the text whose first line contains "developed" and whose
  second line contains "contributed to"; the improvements list holds two different
  records, one per substitution, each with impact score 6.
\<close>

theorem fallback_scenario:
  "fallback_optimization scenario_context = scenario_result
   \<and> is_in (asc ''developed'') (split_lines (optimized_content scenario_result) ! 0)
   \<and> is_in (asc ''contributed to'') (split_lines (optimized_content scenario_result) ! 1)
   \<and> length (improvements scenario_result) = 2
   \<and> improvements scenario_result ! 0 \<noteq> improvements scenario_result ! 1
   \<and> map impact_score (improvements scenario_result) = [6, 6]"
proof -
  have "is_in (asc ''developed'') (split_lines (optimized_content scenario_result) ! 0)"
    by (simp add: scenario_result_def py_eval)
  moreover
  have "is_in (asc ''contributed to'') (split_lines (optimized_content scenario_result) ! 1)"
    by (simp add: scenario_result_def py_eval)
  moreover have "improvements scenario_result ! 0 \<noteq> improvements scenario_result ! 1"
    by (simp add: scenario_result_def py_eval)
  ultimately show ?thesis
    using fallback_scenario_value by (simp add: scenario_result_def)
qed

subsection \<open>Validation of an optimized text\<close>

text \<open>
  C2. The improvement score is the sum of four fixed bonuses: 30 when the quantification
  rate grew, 25 when the power-verb count grew, 20 when the change of the word count lies
  between -50 and 200, 25 when the bullet count did not fall. Validation passes exactly
  when the score is at least 50. For an optimized text equal to the original the score is
  45 and validation does not pass.
\<close>

theorem validate_improvements_score:
  "improvement_score (validate_improvements orig opt) =
     (if cv_quantification_rate (analyze_current_cv opt)
         > cv_quantification_rate (analyze_current_cv orig) then 30 else 0)
     + (if cv_power_verb_count (analyze_current_cv opt)
          > cv_power_verb_count (analyze_current_cv orig) then 25 else 0)
     + (if - 50 \<le> int (length (py_split opt)) - int (length (py_split orig))
          \<and> int (length (py_split opt)) - int (length (py_split orig)) \<le> 200 then 20 else 0)
     + (if cv_total_bullets (analyze_current_cv opt)
          \<ge> cv_total_bullets (analyze_current_cv orig) then 25 else 0)
   \<and> validation_passed (validate_improvements orig opt)
       = (improvement_score (validate_improvements orig opt) \<ge> 50)
   \<and> improvement_score (validate_improvements orig orig) = 45
   \<and> \<not> validation_passed (validate_improvements orig orig)"
  by (simp add: validate_improvements_def Let_def)

theorem validate_improvements_score_witness:
  "improvement_score (validate_improvements weak_text strong_text) = 100
   \<and> validation_passed (validate_improvements weak_text strong_text)
   \<and> improvement_score (validate_improvements weak_text weak_text) = 45
   \<and> \<not> validation_passed (validate_improvements weak_text weak_text)"
proof -
  have a: "cv_quantification_rate (analyze_current_cv strong_text) = 100"
    by (simp add: analyze_current_cv_def strong_text_def quantity_chars_def py_eval)
  have b: "cv_quantification_rate (analyze_current_cv weak_text) = 0"
    by (simp add: analyze_current_cv_def weak_text_def quantity_chars_def py_eval)
  have c: "cv_power_verb_count (analyze_current_cv strong_text) = 1"
    by (simp add: analyze_current_cv_def strong_text_def optimizer_power_verbs_def py_eval)
  have d: "cv_power_verb_count (analyze_current_cv weak_text) = 0"
    by (simp add: analyze_current_cv_def weak_text_def optimizer_power_verbs_def py_eval)
  have e: "length (py_split strong_text) = 4" "length (py_split weak_text) = 3"
    by (simp_all add: strong_text_def weak_text_def py_eval)
  have f: "cv_total_bullets (analyze_current_cv strong_text) = 1"
    "cv_total_bullets (analyze_current_cv weak_text) = 1"
    by (simp_all add: analyze_current_cv_def strong_text_def weak_text_def py_eval)
  show ?thesis
    using validate_improvements_score [of weak_text strong_text]
      validate_improvements_score [of weak_text weak_text]
    by (simp add: a b c d e f)
qed

subsection \<open>Suggestions without a full optimization\<close>

text \<open>
  C9. For every CV text and job description \<^verbatim>\<open>get_optimization_suggestions\<close> returns
  the empty list: the missing-sections computation subtracts a set from a list, which
  raises \<^verbatim>\<open>TypeError\<close> on every input; the handler catches it, so no suggestion reaches
  the caller and nothing is raised.
\<close>

theorem get_optimization_suggestions_empty:
  "suggestions_body text jd = Inl TypeError \<and> get_optimization_suggestions text jd = []"
  by (simp add: suggestions_body_def get_optimization_suggestions_def Let_def)

subsection \<open>Failure of the LLM call or of the parsing\<close>

lemma repl_nonempty: "s \<noteq> [] \<Longrightarrow> new \<noteq> [] \<Longrightarrow> repl old new 0 s \<noteq> []"
  by (cases s) auto

lemma lower_nonempty: "lower s = [] \<longleftrightarrow> s = []"
  by (simp add: lower_def)

lemma replace_step_nonempty:
  "line \<noteq> [] \<Longrightarrow> snd ws \<noteq> [] \<Longrightarrow> fst acc \<noteq> [] \<Longrightarrow> fst (replace_step line acc ws) \<noteq> []"
  by (cases acc; cases ws) (auto simp: replace_def Let_def repl_nonempty lower_nonempty)

lemma foldl_replace_step_nonempty:
  "line \<noteq> [] \<Longrightarrow> \<forall>ws \<in> set tab. snd ws \<noteq> [] \<Longrightarrow> fst acc \<noteq> []
   \<Longrightarrow> fst (foldl (replace_step line) acc tab) \<noteq> []"
  by (induction tab arbitrary: acc) (auto simp: replace_step_nonempty)

lemma verb_replacements_strong: "\<forall>ws \<in> set verb_replacements. snd ws \<noteq> []"
  by (simp add: verb_replacements_def asc_def)

lemma foldl_line_step_length:
  "length (fst (foldl line_step acc ls)) = length (fst acc) + length ls"
  by (induction ls arbitrary: acc) (auto split: prod.splits)

lemma split_acc_nonempty: "split_acc d cur s \<noteq> []"
  by (induction s arbitrary: cur) auto

lemma split_acc_single: "split_acc d cur s = [x] \<Longrightarrow> x = cur @ s"
  by (induction s arbitrary: cur) (force simp: split_acc_nonempty split: if_splits)+

lemma join_two:
  assumes "length ls \<ge> 2" and "sep \<noteq> []"
  shows "join sep ls \<noteq> []"
proof (cases ls)
  case Nil
  then show ?thesis using assms by simp
next
  case (Cons x xs)
  then show ?thesis using assms by (cases xs) auto
qed

lemma fallback_nonempty:
  assumes "cv_text ctx \<noteq> []"
  shows "optimized_content (fallback_optimization ctx) \<noteq> []"
proof -
  let ?ls = "split_lines (cv_text ctx)"
  obtain ols imps where f: "foldl line_step ([], []) ?ls = (ols, imps)"
    by (cases "foldl line_step ([], []) ?ls")
  have len: "length ols = length ?ls"
    using foldl_line_step_length [of "([], [])" ?ls] f by simp
  have oc: "optimized_content (fallback_optimization ctx) = join [newline] ols"
    by (simp add: fallback_optimization_def f)
  show ?thesis
  proof (cases "length ?ls \<ge> 2")
    case True
    then show ?thesis using oc len join_two [of ols "[newline]"] by simp
  next
    case False
    have "?ls \<noteq> []" by (simp add: split_lines_def split_acc_nonempty)
    with False obtain l where l: "?ls = [l]"
      by (cases ?ls) (auto simp: Suc_le_eq)
    then have "l = cv_text ctx"
      using split_acc_single [of newline "[]" "cv_text ctx" l] by (simp add: split_lines_def)
    with assms have "l \<noteq> []" by simp
    then have "fst (foldl (replace_step l) (l, []) verb_replacements) \<noteq> []"
      using foldl_replace_step_nonempty [of l verb_replacements "(l, [])"] verb_replacements_strong
      by simp
    moreover have "ols = [fst (foldl (replace_step l) (l, []) verb_replacements)]"
      using f l by (auto split: prod.splits)
    ultimately show ?thesis using oc by simp
  qed
qed

lemma call_llm_api_calls:
  "calls (snd (call_llm_api cfg net)) = calls net + (if provider cfg = asc ''ollama'' then 1 else 0)"
  by (simp add: call_llm_api_def)

lemma gen_calls: "snd (generate_optimizations cfg loads net ctx) = snd (call_llm_api cfg net)"
  by (auto simp: generate_optimizations_def split: prod.splits sum.splits)

lemma fallback_used_rule_based: "fallback_used (fallback_optimization ctx) = Some True"
  by (simp add: fallback_optimization_def split: prod.splits)

lemma malformed_answer:
  "fst (call_llm_api default_llm_config malformed_network) = Inr (JStr (asc ''{broken}''))"
  "parse_body rejecting_loads (JStr (asc ''{broken}'')) original_cv = Inl JSONDecodeError"
  by (simp_all add: call_llm_api_def default_llm_config_def malformed_network_def
      parse_body_def rejecting_loads_def py_find_def py_rfind_def asc_def)

text \<open>
  C5, as stated, fails when the exception is the \<^verbatim>\<open>JSONDecodeError\<close> that \<^verbatim>\<open>json.loads\<close>
  raises on a malformed answer. The parsing raises, but the handler of the parser
  catches the exception first: the result is the original text with an empty list of
  improvements, and not the result of the rule-based fallback, which rewrites the two
  lines of the scenario.
\<close>

theorem generate_optimizations_malformed_counterexample:
  "fst (call_llm_api default_llm_config malformed_network) = Inr (JStr (asc ''{broken}''))
   \<and> parse_body rejecting_loads (JStr (asc ''{broken}'')) (cv_text scenario_context)
       = Inl JSONDecodeError
   \<and> fst (generate_optimizations default_llm_config rejecting_loads malformed_network
              scenario_context)
       = Built (create_fallback_response scenario_text)
   \<and> optimized_content (create_fallback_response scenario_text) = scenario_text
   \<and> improvements (create_fallback_response scenario_text) = []
   \<and> fallback_optimization scenario_context = scenario_result
   \<and> length (improvements scenario_result) = 2
   \<and> create_fallback_response scenario_text \<noteq> fallback_optimization scenario_context"
proof -
  have a: "fst (generate_optimizations default_llm_config rejecting_loads malformed_network
                  scenario_context)
           = Built (create_fallback_response scenario_text)"
    using malformed_answer(1)
    by (cases "call_llm_api default_llm_config malformed_network")
      (simp add: generate_optimizations_def parse_optimization_response_def malformed_answer(2)
        scenario_context_def)
  have b: "length (improvements scenario_result) = 2"
    by (simp add: scenario_result_def)
  have c: "improvements (create_fallback_response scenario_text) = []"
    "optimized_content (create_fallback_response scenario_text) = scenario_text"
    by (simp_all add: create_fallback_response_def)
  have d: "create_fallback_response scenario_text \<noteq> scenario_result"
    using b c(1) by auto
  show ?thesis
    using a b c d malformed_answer by (simp add: fallback_scenario_value)
qed

text \<open>
  C5, amended. When the LLM call raises, or the parsing of its answer raises, the engine
  raises nothing and returns a result built by the program with \<open>fallback_used\<close> true, an
  optimized content that is not empty for a non-empty text, and at most one request sent
  (no retry). The result is that of the rule-based fallback, except when the exception
  is the \<^verbatim>\<open>JSONDecodeError\<close> raised while the answer is decoded: then the parser itself
  returns the original text unchanged, with an empty list of improvements.
\<close>

theorem generate_optimizations_failure:
  assumes "fst (call_llm_api cfg net) = Inl e
           \<or> (\<exists>response. fst (call_llm_api cfg net) = Inr response
                 \<and> parse_body loads response (cv_text ctx) = Inl e)"
  shows "\<exists>res. fst (generate_optimizations cfg loads net ctx) = Built res
           \<and> res = (if fst (call_llm_api cfg net) = Inl e \<or> e \<noteq> JSONDecodeError
                    then fallback_optimization ctx
                    else create_fallback_response (cv_text ctx))
           \<and> fallback_used res = Some True
           \<and> (cv_text ctx \<noteq> [] \<longrightarrow> optimized_content res \<noteq> [])
           \<and> calls (snd (generate_optimizations cfg loads net ctx)) \<le> calls net + 1"
proof -
  define res where
    "res = (if fst (call_llm_api cfg net) = Inl e \<or> e \<noteq> JSONDecodeError
            then fallback_optimization ctx
            else create_fallback_response (cv_text ctx))"
  have "fst (generate_optimizations cfg loads net ctx) = Built res"
    using assms
  proof
    assume "fst (call_llm_api cfg net) = Inl e"
    then show ?thesis
      by (cases "call_llm_api cfg net") (simp add: generate_optimizations_def res_def)
  next
    assume "\<exists>response. fst (call_llm_api cfg net) = Inr response
              \<and> parse_body loads response (cv_text ctx) = Inl e"
    then obtain response where r: "fst (call_llm_api cfg net) = Inr response"
      and p: "parse_body loads response (cv_text ctx) = Inl e"
      by blast
    show ?thesis
      using r p
      by (cases "call_llm_api cfg net"; cases e)
        (simp_all add: generate_optimizations_def parse_optimization_response_def res_def)
  qed
  moreover have "fallback_used res = Some True"
    by (simp add: res_def fallback_used_rule_based create_fallback_response_def)
  moreover have "optimized_content res \<noteq> []" if "cv_text ctx \<noteq> []"
    using that fallback_nonempty [of ctx] by (simp add: res_def create_fallback_response_def)
  moreover have "calls (snd (generate_optimizations cfg loads net ctx)) \<le> calls net + 1"
    by (simp add: gen_calls call_llm_api_calls)
  ultimately show ?thesis
    unfolding res_def by blast
qed

theorem generate_optimizations_failure_witness:
  "fst (generate_optimizations default_llm_config rejecting_loads flaky_network scenario_context)
     = Built scenario_result
   \<and> calls (snd (generate_optimizations default_llm_config rejecting_loads flaky_network
                     scenario_context)) = 1
   \<and> fst (generate_optimizations default_llm_config rejecting_loads null_network scenario_context)
     = Built scenario_result
   \<and> fst (generate_optimizations default_llm_config rejecting_loads malformed_network
             scenario_context)
     = Built (create_fallback_response scenario_text)
   \<and> fallback_used scenario_result = Some True
   \<and> fallback_used (create_fallback_response scenario_text) = Some True
   \<and> optimized_content scenario_result \<noteq> []
   \<and> optimized_content (create_fallback_response scenario_text) \<noteq> []"
proof -
  have a: "fst (call_llm_api default_llm_config flaky_network) = Inl RequestException"
    by (simp add: call_llm_api_def default_llm_config_def flaky_network_def)
  have b: "fst (call_llm_api default_llm_config null_network) = Inr JNull"
    by (simp add: call_llm_api_def default_llm_config_def null_network_def)
  have c: "parse_body rejecting_loads JNull (cv_text scenario_context) = Inl AttributeError"
    by (simp add: parse_body_def)
  have d: "calls (snd (generate_optimizations default_llm_config rejecting_loads flaky_network
                        scenario_context)) = 1"
    by (simp add: gen_calls call_llm_api_calls default_llm_config_def flaky_network_def)
  have e: "cv_text scenario_context = scenario_text" "scenario_text \<noteq> []"
    by (simp_all add: scenario_context_def scenario_text_def)
  show ?thesis
    using generate_optimizations_failure [of default_llm_config flaky_network RequestException
        rejecting_loads scenario_context]
      generate_optimizations_failure [of default_llm_config null_network AttributeError
        rejecting_loads scenario_context]
      generate_optimizations_failure [of default_llm_config malformed_network JSONDecodeError
        rejecting_loads scenario_context]
      a b c d e malformed_answer fallback_scenario_value
    by simp
qed

subsection \<open>The range of the enhanced score\<close>

lemma py_int_le_52: "0 \<le> x \<Longrightarrow> x \<le> 52 \<Longrightarrow> 0 \<le> py_int x \<and> py_int x \<le> 52"
  by (simp add: py_int_def floor_le_iff)

lemma of_nat_le_100: "n \<le> 100 \<Longrightarrow> (of_nat n :: rat) \<le> 100"
  using of_nat_le_iff [of n 100, where 'a = rat] by simp

lemma of_int_le_100: "k \<le> 100 \<Longrightarrow> (of_int k :: rat) \<le> 100"
  using of_int_le_iff [of k 100, where 'a = rat] by simp

lemma weighted_sum_bounds:
  fixes a b c d p q r u v w :: rat
  assumes "0 \<le> a" "a \<le> 100" "0 \<le> b" "b \<le> 100" "0 \<le> c" "c \<le> 100" "0 \<le> d" "d \<le> 100"
    and "0 \<le> p" "p \<le> 100" "0 \<le> q" "q \<le> 100" "0 \<le> r" "r \<le> 100"
    and "0 \<le> u" "u \<le> 100" "0 \<le> v" "v \<le> 100" "0 \<le> w" "w \<le> 100"
  shows "0 \<le> sum_list [a * (15 / 100), b * (20 / 100), c * (15 / 100), d * (10 / 100)] * (6 / 10)
              + sum_list [p * (15 / 100), q * (8 / 100), r * (5 / 100), u * (7 / 100),
                          v * (3 / 100), w * (2 / 100)] * (4 / 10)"
    and "sum_list [a * (15 / 100), b * (20 / 100), c * (15 / 100), d * (10 / 100)] * (6 / 10)
         + sum_list [p * (15 / 100), q * (8 / 100), r * (5 / 100), u * (7 / 100),
                     v * (3 / 100), w * (2 / 100)] * (4 / 10) \<le> 52"
proof -
  define B where "B = sum_list [a * (15 / 100), b * (20 / 100), c * (15 / 100), d * (10 / 100)]"
  define E where "E = sum_list [p * (15 / 100), q * (8 / 100), r * (5 / 100), u * (7 / 100),
                                 v * (3 / 100), w * (2 / 100)]"
  have t: "0 \<le> a * (15 / 100)" "a * (15 / 100) \<le> 15" "0 \<le> b * (20 / 100)" "b * (20 / 100) \<le> 20"
    "0 \<le> c * (15 / 100)" "c * (15 / 100) \<le> 15" "0 \<le> d * (10 / 100)" "d * (10 / 100) \<le> 10"
    "0 \<le> p * (15 / 100)" "p * (15 / 100) \<le> 15" "0 \<le> q * (8 / 100)" "q * (8 / 100) \<le> 8"
    "0 \<le> r * (5 / 100)" "r * (5 / 100) \<le> 5" "0 \<le> u * (7 / 100)" "u * (7 / 100) \<le> 7"
    "0 \<le> v * (3 / 100)" "v * (3 / 100) \<le> 3" "0 \<le> w * (2 / 100)" "w * (2 / 100) \<le> 2"
    using assms by simp_all
  have B: "0 \<le> B" "B \<le> 60"
    unfolding B_def using t by simp_all
  have E: "0 \<le> E" "E \<le> 40"
    unfolding E_def using t by simp_all
  have "0 \<le> B * (6 / 10) + E * (4 / 10)" "B * (6 / 10) + E * (4 / 10) \<le> 52"
    using B E by simp_all
  then show "0 \<le> sum_list [a * (15 / 100), b * (20 / 100), c * (15 / 100), d * (10 / 100)] * (6 / 10)
              + sum_list [p * (15 / 100), q * (8 / 100), r * (5 / 100), u * (7 / 100),
                          v * (3 / 100), w * (2 / 100)] * (4 / 10)"
    and "sum_list [a * (15 / 100), b * (20 / 100), c * (15 / 100), d * (10 / 100)] * (6 / 10)
         + sum_list [p * (15 / 100), q * (8 / 100), r * (5 / 100), u * (7 / 100),
                     v * (3 / 100), w * (2 / 100)] * (4 / 10) \<le> 52"
    unfolding B_def E_def by blast+
qed
lemma enhanced_sum_bounds:
  assumes "sub_scores_in_range s e"
  shows "0 \<le> calculate_enhanced_score s e \<and> calculate_enhanced_score s e \<le> 52"
proof -
  note r = assms [unfolded sub_scores_in_range_def]
  have b: "0 \<le> (of_nat (power_verbs_score (sec_keywords s)) :: rat)"
    "(of_nat (power_verbs_score (sec_keywords s)) :: rat) \<le> 100"
    "0 \<le> (of_nat (technical_skills_score (sec_keywords s)) :: rat)"
    "(of_nat (technical_skills_score (sec_keywords s)) :: rat) \<le> 100"
    "0 \<le> overall_formatting_score (sec_formatting s)"
    "overall_formatting_score (sec_formatting s) \<le> 100"
    "0 \<le> (of_int (ats_score (sec_ats_compatibility s)) :: rat)"
    "(of_int (ats_score (sec_ats_compatibility s)) :: rat) \<le> 100"
    using r by (simp_all add: of_nat_le_100 of_int_le_100)
  have c: "0 \<le> overall_compliance_score (ea_industry_standards e)"
    "overall_compliance_score (ea_industry_standards e) \<le> 100"
    "0 \<le> tier_distribution_score (ea_verb_hierarchy e)"
    "tier_distribution_score (ea_verb_hierarchy e) \<le> 100"
    "0 \<le> (of_nat (leadership_score (ea_leadership_analysis e)) :: rat)"
    "(of_nat (leadership_score (ea_leadership_analysis e)) :: rat) \<le> 100"
    "0 \<le> (of_nat (ia_impact_score (ea_impact_analysis e)) :: rat)"
    "(of_nat (ia_impact_score (ea_impact_analysis e)) :: rat) \<le> 100"
    "0 \<le> depth_score (ea_content_depth e)" "depth_score (ea_content_depth e) \<le> 100"
    "0 \<le> (of_int (presentation_score (ea_professional_presentation e)) :: rat)"
    "(of_int (presentation_score (ea_professional_presentation e)) :: rat) \<le> 100"
    using r by (simp_all add: of_nat_le_100 of_int_le_100)
  show ?thesis
    unfolding calculate_enhanced_score_def Let_def
    by (rule py_int_le_52) (rule weighted_sum_bounds [OF b c])+
qed

text \<open>
  C10. When every sub-score that enters the enhanced score lies between 0 and 100, the
  enhanced score is at most 52 (36 from the base part, 16 from the enhanced part). The
  letter grade computed from it is therefore D, never A or A+, and none of the benchmark
  thresholds (65, 85, 70, 80) is met.
\<close>

theorem enhanced_score_at_most_52:
  assumes "sub_scores_in_range s e"
  shows "calculate_enhanced_score s e \<le> 52
         \<and> fst (executive_grade (calculate_enhanced_score s e)) = asc ''D''
         \<and> fst (executive_grade (calculate_enhanced_score s e)) \<noteq> asc ''A''
         \<and> fst (executive_grade (calculate_enhanced_score s e)) \<noteq> asc ''A+''
         \<and> map (\<lambda>(name, b). (name, meets_benchmark b))
               (create_benchmark_comparison (calculate_enhanced_score s e))
             = map (\<lambda>(name, t). (name, False)) benchmarks"
proof -
  have le: "calculate_enhanced_score s e \<le> 52"
    using enhanced_sum_bounds [OF assms] by simp
  then have g: "fst (executive_grade (calculate_enhanced_score s e)) = asc ''D''"
    by (simp add: executive_grade_def)
  have "map (\<lambda>(name, b). (name, meets_benchmark b))
          (create_benchmark_comparison (calculate_enhanced_score s e))
        = map (\<lambda>(name, t). (name, False)) benchmarks"
    using le by (simp add: create_benchmark_comparison_def benchmarks_def)
  with le g show ?thesis
    by (simp add: asc_def)
qed

theorem enhanced_score_at_most_52_witness:
  "sub_scores_in_range full_sections full_enhanced
   \<and> calculate_enhanced_score full_sections full_enhanced = 52
   \<and> fst (executive_grade (calculate_enhanced_score full_sections full_enhanced)) = asc ''D''"
proof -
  have r: "sub_scores_in_range full_sections full_enhanced"
    by (simp add: sub_scores_in_range_def full_sections_def full_enhanced_def)
  have v: "calculate_enhanced_score full_sections full_enhanced = 52"
    by (simp add: calculate_enhanced_score_def full_sections_def full_enhanced_def py_int_def)
  show ?thesis
    using enhanced_score_at_most_52 [OF r] r v by simp
qed

subsection \<open>The standards for action verbs and role alignment\<close>

text \<open>
  C7. The score of the action-verb standard follows the tiers 90 (five tier-1 verbs or
  more), 75 (three or four), 50 (fewer), and does not decrease when the tier-1 count
  grows.
\<close>

theorem action_verb_score_monotone:
  "fst (check_action_verb_compliance a)
     = (if tier1_count_of a \<ge> 5 then 90 else if tier1_count_of a \<ge> 3 then 75 else 50)
   \<and> (tier1_count_of a \<le> tier1_count_of b
        \<longrightarrow> fst (check_action_verb_compliance a) \<le> fst (check_action_verb_compliance b))"
  by (simp add: check_action_verb_compliance_def Let_def)

lemma tier1_sample_counts:
  "map (\<lambda>k. tier1_count_of (tier1_sample k)) [0, 1, 2, 3, 4, 5, 6] = [0, 1, 2, 3, 4, 5, 6]"
  by (simp add: tier1_count_of_def tier1_sample_def tier1_verbs_def terms_found_def py_eval)

theorem action_verb_score_monotone_witness:
  "map (\<lambda>k. fst (check_action_verb_compliance (tier1_sample k))) [0, 1, 2, 3, 4, 5, 6]
     = [50, 50, 50, 75, 75, 90, 90]
   \<and> tier1_count_of (tier1_sample 2) \<le> tier1_count_of (tier1_sample 5)
   \<and> fst (check_action_verb_compliance (tier1_sample 2))
       \<le> fst (check_action_verb_compliance (tier1_sample 5))"
  using tier1_sample_counts
    action_verb_score_monotone [of "tier1_sample 0" "tier1_sample 1"]
    action_verb_score_monotone [of "tier1_sample 1" "tier1_sample 2"]
    action_verb_score_monotone [of "tier1_sample 2" "tier1_sample 5"]
    action_verb_score_monotone [of "tier1_sample 3" "tier1_sample 4"]
    action_verb_score_monotone [of "tier1_sample 4" "tier1_sample 5"]
    action_verb_score_monotone [of "tier1_sample 5" "tier1_sample 6"]
    action_verb_score_monotone [of "tier1_sample 6" "tier1_sample 6"]
  by simp




subsection \<open>Rounding to binary64: error and range\<close>

lemma floor_rat_numeral: "\<lfloor>numeral a / numeral b :: rat\<rfloor> = numeral a div numeral b"
  using floor_divide_of_int_eq [of "numeral a" "numeral b", where ?'a = rat] by simp

lemma ceiling_rat_numeral: "\<lceil>numeral a / numeral b :: rat\<rceil> = - (- numeral a div numeral b)"
  using ceiling_divide_eq_div [of "numeral a" "numeral b", where ?'a = rat] by simp

lemmas float_eval =
  binary64_def exponent_def compute_floorlog pow2_def round_half_even_def Let_def
  floor_rat_numeral ceiling_rat_numeral

lemma ceiling_ge_2: "1 < y \<Longrightarrow> 2 \<le> \<lceil>y :: rat\<rceil>"
proof -
  assume "1 < y"
  then have "1 < \<lceil>y\<rceil>" by (simp add: less_ceiling_iff)
  then show ?thesis by simp
qed

lemma pow2_1074: "pow2 (- 1074) = 1 / 2 ^ 1074"
  by (simp add: pow2_def)

lemma half_1074: "(1 / 2 ^ 1074 :: rat) / 2 = 1 / 2 ^ 1075"
proof -
  have "(2 :: rat) ^ 1075 = 2 ^ 1074 * 2"
    by (metis power_Suc2 eval_nat_numeral(3) Suc_eq_plus1) 
  then show ?thesis by simp
qed

lemma pow2_powi: "pow2 e = power_int 2 e"
  by (simp add: pow2_def power_int_def inverse_eq_divide power_one_over)

lemma pow2_pos: "0 < pow2 e"
  by (simp add: pow2_def)

lemma pow2_diff: "pow2 (a - b) = pow2 a / pow2 b"
  by (simp add: pow2_powi power_int_diff)

lemma pow2_52: "pow2 52 = 2 ^ 52"
  by (simp add: pow2_def)

lemma exponent_le:
  assumes "0 < x"
  shows "pow2 (exponent x) \<le> x"
proof (cases "1 \<le> x")
  case True
  define n where "n = nat \<lfloor>x\<rfloor>"
  have n: "0 < n" using True by (simp add: n_def)
  have "2 ^ (floorlog 2 n - 1) \<le> n"
    using floorlog_bounds [of n 2] n by simp
  then have "(of_nat (2 ^ (floorlog 2 n - 1)) :: rat) \<le> of_nat n"
    by (simp only: of_nat_le_iff)
  then have "(2 :: rat) ^ (floorlog 2 n - 1) \<le> of_nat n"
    by simp
  moreover have "floorlog 2 n \<ge> 1"
    using n by (simp add: floorlog_def)
  ultimately have "pow2 (int (floorlog 2 n) - 1) \<le> of_nat n"
    by (simp add: pow2_def nat_diff_distrib)
  also have "(of_nat n :: rat) \<le> x"
    using True by (simp add: n_def)
  finally show ?thesis
    using True by (simp add: exponent_def n_def)
next
  case False
  define n where "n = nat (\<lceil>1 / x\<rceil> - 1)"
  have "1 < 1 / x" using False assms by simp
  then have c: "2 \<le> \<lceil>1 / x\<rceil>"
    by (rule ceiling_ge_2)
  then have n: "0 < n" by (simp add: n_def)
  have "n < 2 ^ floorlog 2 n"
    using floorlog_bounds [of n 2] n by simp
  then have "n + 1 \<le> 2 ^ floorlog 2 n" by simp
  then have "(of_nat (n + 1) :: rat) \<le> of_nat (2 ^ floorlog 2 n)"
    by (simp only: of_nat_le_iff)
  then have "(of_nat (n + 1) :: rat) \<le> 2 ^ floorlog 2 n"
    by simp
  moreover have "1 / x \<le> of_int \<lceil>1 / x\<rceil>" by simp
  moreover have "of_int \<lceil>1 / x\<rceil> = (of_nat (n + 1) :: rat)"
  proof -
    have "0 \<le> \<lceil>1 / x\<rceil> - 1"
      using c by linarith
    then have "(of_nat n :: rat) = of_int (\<lceil>1 / x\<rceil> - 1)"
      unfolding n_def by (rule of_nat_nat)
    then show ?thesis
      by simp
  qed
  ultimately have "1 / x \<le> 2 ^ floorlog 2 n" by simp
  then have "1 / 2 ^ floorlog 2 n \<le> x"
    using assms by (simp add: field_simps)
  moreover have "0 < floorlog 2 n"
    using n by (simp add: floorlog_def)
  ultimately show ?thesis
    using False by (simp add: exponent_def n_def pow2_def)
qed

lemma round_half_even_error: "\<bar>of_int (round_half_even y) - y\<bar> \<le> 1 / 2"
proof -
  have "of_int \<lfloor>y\<rfloor> \<le> y" "y < of_int \<lfloor>y\<rfloor> + 1"
    by linarith+
  then show ?thesis
    by (auto simp: round_half_even_def Let_def abs_le_iff)
qed

lemma binary64_error:
  assumes "0 < x"
  shows "\<bar>binary64 x - x\<bar> \<le> x / 2 ^ 53 + 1 / 2 ^ 1075"
proof -
  define e where "e = max (exponent x - 52) (- 1074)"
  define u where "u = pow2 e"
  define m where "m = round_half_even (x / u)"
  have u: "0 < u" by (simp add: u_def pow2_pos)
  have b: "binary64 x = of_int m * u"
    using assms by (simp add: binary64_def e_def u_def m_def Let_def)
  have "\<bar>of_int m - x / u\<bar> \<le> 1 / 2"
    unfolding m_def by (rule round_half_even_error)
  then have "\<bar>of_int m - x / u\<bar> * u \<le> 1 / 2 * u"
    using u by (simp del: times_divide_eq_left)
  moreover have "\<bar>of_int m - x / u\<bar> * u = \<bar>of_int m * u - x\<bar>"
  proof -
    have "\<bar>of_int m - x / u\<bar> * u = \<bar>(of_int m - x / u) * u\<bar>"
      using u by (simp add: abs_mult)
    also have "(of_int m - x / u) * u = of_int m * u - x"
      using u by (simp add: field_simps)
    finally show ?thesis .
  qed
  ultimately have err: "\<bar>binary64 x - x\<bar> \<le> u / 2"
    using b by simp
  have "u \<le> x / 2 ^ 52 \<or> u = 1 / 2 ^ 1074"
  proof (cases "exponent x - 52 \<ge> - 1074")
    case True
    then have "e = exponent x - 52"
      by (simp add: e_def)
    then have "u = pow2 (exponent x) / 2 ^ 52"
      by (simp add: u_def pow2_diff pow2_52)
    then show ?thesis
      using exponent_le [OF assms] by (simp add: divide_right_mono)
  next
    case False
    then have "e = - 1074"
      by (simp add: e_def)
    then have "u = pow2 (- 1074)"
      by (simp add: u_def)
    then have "u = 1 / 2 ^ 1074"
      by (simp only: pow2_1074)
    then show ?thesis ..
  qed
  then have "u / 2 \<le> x / 2 ^ 53 + 1 / 2 ^ 1075"
  proof
    assume "u \<le> x / 2 ^ 52"
    then have "u / 2 \<le> x / 2 ^ 52 / 2" by simp
    then show ?thesis by simp
  next
    assume "u = 1 / 2 ^ 1074"
    then have "u / 2 = 1 / 2 ^ 1075"
      by (simp only: half_1074)
    moreover have "0 \<le> x / 2 ^ 53"
      using assms by simp
    ultimately show ?thesis
      by (simp only: le_add_same_cancel2)
  qed
  with err show ?thesis by simp
qed

lemma binary64_error_nonneg:
  assumes "0 \<le> x"
  shows "\<bar>binary64 x - x\<bar> \<le> x / 2 ^ 53 + 1 / 2 ^ 1075"
proof (cases "x = 0")
  case True
  then show ?thesis by (simp add: binary64_def)
next
  case False
  with assms have "0 < x" by simp
  then show ?thesis by (rule binary64_error)
qed

lemma round_half_even_nonneg: "0 \<le> y \<Longrightarrow> 0 \<le> round_half_even y"
  by (simp add: round_half_even_def Let_def)

lemma binary64_nonneg:
  assumes "0 \<le> x"
  shows "0 \<le> binary64 x"
proof (cases "x = 0")
  case True
  then show ?thesis by (simp add: binary64_def)
next
  case False
  with assms have x: "0 < x" by simp
  define u where "u = pow2 (max (exponent x - 52) (- 1074))"
  have u: "0 < u" by (simp add: u_def pow2_pos)
  then have "0 \<le> round_half_even (x / u)"
    using x by (intro round_half_even_nonneg) simp
  then have "0 \<le> of_int (round_half_even (x / u)) * u"
    using u by simp
  then show ?thesis
    using x by (simp add: binary64_def Let_def u_def)
qed

lemma round_half_even_le:
  assumes "y \<le> of_int n"
  shows "round_half_even y \<le> n"
proof -
  have f: "\<lfloor>y\<rfloor> \<le> n"
    using assms floor_mono [of y "of_int n"] by simp
  show ?thesis
  proof (cases "\<lfloor>y\<rfloor> = n")
    case True
    then have "of_int n \<le> y" by (metis of_int_floor_le)
    with assms have "y = of_int n" by simp
    then show ?thesis by (simp add: round_half_even_def)
  next
    case False
    with f have "\<lfloor>y\<rfloor> + 1 \<le> n" by simp
    then show ?thesis
      using f by (simp add: round_half_even_def Let_def)
  qed
qed

lemma exponent_le_0:
  assumes "0 < x" and "x \<le> 1"
  shows "exponent x \<le> 0"
proof (cases "1 \<le> x")
  case True
  with assms have "x = 1" by simp
  then show ?thesis by (simp add: exponent_def compute_floorlog)
next
  case False
  then show ?thesis by (simp add: exponent_def)
qed

lemma exponent_le_6:
  assumes "0 < x" and "x \<le> 100"
  shows "exponent x \<le> 6"
proof (cases "1 \<le> x")
  case True
  have "\<lfloor>x\<rfloor> \<le> \<lfloor>100 :: rat\<rfloor>"
    using assms(2) by (rule floor_mono)
  then have "nat \<lfloor>x\<rfloor> \<le> nat \<lfloor>100 :: rat\<rfloor>"
    by (rule nat_mono)
  then have "nat \<lfloor>x\<rfloor> \<le> 100" by simp
  then have "floorlog 2 (nat \<lfloor>x\<rfloor>) \<le> floorlog 2 100"
    by (rule floorlog_mono)
  moreover have "floorlog 2 100 = 7"
    by (simp add: compute_floorlog)
  ultimately show ?thesis
    using True by (simp add: exponent_def)
next
  case False
  then show ?thesis by (simp add: exponent_def)
qed

lemma binary64_le_of_int:
  assumes "0 < x" and "x \<le> of_int k" and "exponent x \<le> 52"
  shows "binary64 x \<le> of_int k"
proof -
  define e where "e = max (exponent x - 52) (- 1074)"
  define u where "u = pow2 e"
  have e: "e \<le> 0" using assms(3) by (simp add: e_def)
  have u: "0 < u" by (simp add: u_def pow2_pos)
  have iu: "1 / u = of_int (2 ^ nat (- e))"
    using e by (cases "e = 0") (simp_all add: u_def pow2_def)
  have "x / u \<le> of_int k / u"
    using assms(2) u by (simp add: divide_right_mono)
  also have "of_int k / u = of_int (k * 2 ^ nat (- e))"
  proof -
    have "of_int k / u = of_int k * (1 / u)"
      by simp
    then show ?thesis
      by (simp only: iu of_int_mult)
  qed
  finally have "round_half_even (x / u) \<le> k * 2 ^ nat (- e)"
    by (rule round_half_even_le)
  then have "(of_int (round_half_even (x / u)) :: rat) \<le> of_int (k * 2 ^ nat (- e))"
    by (simp only: of_int_le_iff)
  then have "of_int (round_half_even (x / u)) * u \<le> of_int (k * 2 ^ nat (- e)) * u"
    using u by (simp only: mult_le_cancel_right) simp
  also have "of_int (k * 2 ^ nat (- e)) * u = of_int k * ((1 / u) * u)"
    using iu by simp
  also have "\<dots> = of_int k"
    using u by simp
  finally show ?thesis
    using assms(1) by (simp add: binary64_def Let_def e_def u_def)
qed

lemma subnormal_slack: "201 * (1 / 2 ^ 1075 :: rat) \<le> 1 / 2 ^ 1067"
proof -
  have "(2 :: rat) ^ 1075 = 2 ^ 1067 * 2 ^ 8"
    by (simp only: flip: power_add) simp
  then show ?thesis
    by (simp add: field_simps)
qed

lemma two_roundings_error:
  assumes "0 \<le> x"
  shows "\<bar>binary64 (binary64 x * 100) - 100 * x\<bar> \<le> 100 * x / 2 ^ 51 + 1 / 2 ^ 1067"
proof -
  define eps :: rat where "eps = 1 / 2 ^ 53"
  define eta :: rat where "eta = 1 / 2 ^ 1075"
  define d where "d = binary64 x"
  define r where "r = binary64 (d * 100)"
  define a where "a = x * eps"
  have eps: "0 \<le> eps" "eps \<le> 1" by (simp_all add: eps_def)
  have eta: "0 \<le> eta" by (simp add: eta_def)
  have a: "0 \<le> a" using assms eps by (simp add: a_def)
  have d0: "0 \<le> d" unfolding d_def using assms by (rule binary64_nonneg)
  have e1: "\<bar>d - x\<bar> \<le> a + eta"
    using binary64_error_nonneg [OF assms] by (simp add: d_def a_def eps_def eta_def)
  have "0 \<le> d * 100" using d0 by simp
  then have "\<bar>r - d * 100\<bar> \<le> d * 100 / 2 ^ 53 + 1 / 2 ^ 1075"
    unfolding r_def by (rule binary64_error_nonneg)
  then have e2: "\<bar>r - d * 100\<bar> \<le> 100 * (d * eps) + eta"
    by (simp add: eps_def eta_def)
  have "d \<le> x + a + eta" using e1 by linarith
  then have "d * eps \<le> (x + a + eta) * eps"
    using eps(1) by (rule mult_right_mono)
  also have "\<dots> = a + a * eps + eta * eps"
    by (simp add: a_def algebra_simps)
  also have "\<dots> \<le> a + a + eta"
  proof -
    have "a * eps \<le> a * 1" using a eps(2) by (rule mult_left_mono [rotated])
    moreover have "eta * eps \<le> eta * 1" using eta eps(2) by (rule mult_left_mono [rotated])
    ultimately show ?thesis by simp
  qed
  finally have de: "d * eps \<le> 2 * a + eta" by simp
  have "r - d * 100 \<le> 100 * (d * eps) + eta" "d * 100 - r \<le> 100 * (d * eps) + eta"
    using e2 by (simp_all add: abs_le_iff)
  moreover have "d - x \<le> a + eta" "x - d \<le> a + eta"
    using e1 by (simp_all add: abs_le_iff)
  ultimately have "r - 100 * x \<le> 300 * a + 201 * eta" "100 * x - r \<le> 300 * a + 201 * eta"
    using de by linarith+
  then have "\<bar>r - 100 * x\<bar> \<le> 300 * a + 201 * eta"
    by (simp add: abs_le_iff)
  moreover have "300 * a \<le> 100 * x / 2 ^ 51"
    using assms by (simp add: a_def eps_def)
  moreover have "201 * eta \<le> 1 / 2 ^ 1067"
    unfolding eta_def by (rule subnormal_slack)
  ultimately show ?thesis
    unfolding r_def d_def by linarith
qed

lemma two_roundings_range:
  assumes "0 \<le> x" and "x \<le> 1"
  shows "0 \<le> binary64 (binary64 x * 100) \<and> binary64 (binary64 x * 100) \<le> 100"
proof -
  define d where "d = binary64 x"
  have d0: "0 \<le> d" unfolding d_def using assms(1) by (rule binary64_nonneg)
  have d1: "d \<le> 1"
  proof (cases "x = 0")
    case True
    then show ?thesis by (simp add: d_def binary64_def)
  next
    case False
    with assms have x: "0 < x" by simp
    then have "exponent x \<le> 52"
      using exponent_le_0 [OF x assms(2)] by simp
    then show ?thesis
      unfolding d_def using binary64_le_of_int [of x 1] x assms(2) by simp
  qed
  have lo: "0 \<le> binary64 (d * 100)"
    using d0 by (intro binary64_nonneg) simp
  have hi: "binary64 (d * 100) \<le> 100"
  proof (cases "d = 0")
    case True
    then show ?thesis by (simp add: binary64_def)
  next
    case False
    with d0 have p: "0 < d * 100" by simp
    have q: "d * 100 \<le> 100" using d1 by simp
    have "exponent (d * 100) \<le> 52"
      using exponent_le_6 [OF p q] by simp
    then show ?thesis
      using binary64_le_of_int [of "d * 100" 100] p q by simp
  qed
  from lo hi show ?thesis
    by (simp add: d_def)
qed

subsection \<open>Quantification rate and quantification standard\<close>

lemmas re_eval =
  seqs_def lit_def plus_def optional_def digit_def one_of_def findall_def re_search_def
  word_before_def word_after_def is_word_def

text \<open>The float quotients and rates of the sample texts.\<close>

lemma float_div_values:
  "float_div 0 1 = 0"
  "float_div 1 3 = 6004799503160661 / 18014398509481984"
  "float_div 1 6 = 6004799503160661 / 36028797018963968"
  "float_div 8 10 = 3602879701896397 / 4503599627370496"
  "float_div 29 50 = 5224175567749775 / 9007199254740992"
  "float_div 1 2 = 1 / 2"
  by (simp_all add: float_div_def float_eval)

lemma float_rate_values:
  "float_mul (float_div 0 1) 100 = 0"
  "float_mul (float_div 1 3) 100 = 2345624805922133 / 70368744177664"
  "float_mul (float_div 1 6) 100 = 2345624805922133 / 140737488355328"
  "float_mul (float_div 8 10) 100 = 80"
  "float_mul (float_div 29 50) 100 = 8162774324609023 / 140737488355328"
  "float_mul (float_div 1 2) 100 = 50"
  by (simp_all add: float_div_values float_mul_def) (simp_all add: float_eval)

lemma nearest_float_100_3: "binary64 (100 / 3) = 4691249611844267 / 140737488355328"
  by (simp add: float_eval)

lemma one_of_three_bullets:
  "bullet_lines_of one_of_three = [asc ''- a'', 8226 # asc '' 3 years'', asc ''* c'']"
  by (simp add: bullet_lines_of_def bullet_line_re_def one_of_three_def re_eval py_eval)

lemma one_of_three_counts:
  "qa_total_bullets (analyze_quantification one_of_three) = 3"
  "qa_quantified_bullets (analyze_quantification one_of_three) = 1"
  by (simp_all add: analyze_quantification_def one_of_three_bullets quantified_re_def
      re_eval py_eval)

lemma one_of_three_rate:
  "qa_quantification_rate (analyze_quantification one_of_three)
   = 2345624805922133 / 70368744177664"
proof -
  have "qa_quantification_rate (analyze_quantification one_of_three)
        = float_mul (float_div 1 3) 100"
    by (simp add: analyze_quantification_def one_of_three_bullets quantified_re_def
        re_eval py_eval)
  then show ?thesis
    by (simp only: float_rate_values)
qed

lemma no_bullets_lines: "bullet_lines_of no_bullets = []"
  by (simp add: bullet_lines_of_def bullet_line_re_def no_bullets_def re_eval py_eval)

lemma replicate_numeral_unfold: "replicate (numeral k) x = x # replicate (pred_numeral k) x"
  by (simp add: numeral_eq_Suc)

lemma twenty_nine_of_fifty_bullets:
  "bullet_lines_of twenty_nine_of_fifty = replicate 29 (asc ''- 1'') @ replicate 21 (asc ''- a'')"
  by (simp add: bullet_lines_of_def bullet_line_re_def twenty_nine_of_fifty_def
      replicate_numeral_unfold re_eval py_eval)

lemma twenty_nine_of_fifty_rate:
  "qa_total_bullets (analyze_quantification twenty_nine_of_fifty) = 50"
  "qa_quantified_bullets (analyze_quantification twenty_nine_of_fifty) = 29"
  "qa_quantification_rate (analyze_quantification twenty_nine_of_fifty)
   = 8162774324609023 / 140737488355328"
proof -
  have a: "qa_total_bullets (analyze_quantification twenty_nine_of_fifty) = 50"
    "qa_quantified_bullets (analyze_quantification twenty_nine_of_fifty) = 29"
    by (simp_all add: analyze_quantification_def twenty_nine_of_fifty_bullets quantified_re_def
        replicate_numeral_unfold re_eval py_eval)
  have "qa_quantification_rate (analyze_quantification twenty_nine_of_fifty)
        = float_mul (float_div (int (qa_quantified_bullets
                                       (analyze_quantification twenty_nine_of_fifty)))
                               (int (max (qa_total_bullets
                                            (analyze_quantification twenty_nine_of_fifty)) 1)))
                    100"
    by (simp add: analyze_quantification_def Let_def)
  then have "qa_quantification_rate (analyze_quantification twenty_nine_of_fifty)
             = float_mul (float_div 29 50) 100"
    by (simp add: a)
  then show "qa_quantification_rate (analyze_quantification twenty_nine_of_fifty)
             = 8162774324609023 / 140737488355328"
    by (simp only: float_rate_values)
  show "qa_total_bullets (analyze_quantification twenty_nine_of_fifty) = 50"
    "qa_quantified_bullets (analyze_quantification twenty_nine_of_fifty) = 29"
    by (rule a)+
qed

text \<open>A digit outside ASCII counts: the first of the two bullets is quantified.\<close>

lemma arabic_digit_counts:
  "qa_total_bullets (analyze_quantification arabic_digit) = 2"
  "qa_quantified_bullets (analyze_quantification arabic_digit) = 1"
proof -
  have "bullet_lines_of arabic_digit = [asc ''- '' @ [1635], asc ''- a'']"
    by (simp add: bullet_lines_of_def bullet_line_re_def arabic_digit_def re_eval py_eval)
  then show "qa_total_bullets (analyze_quantification arabic_digit) = 2"
    "qa_quantified_bullets (analyze_quantification arabic_digit) = 1"
    by (simp_all add: analyze_quantification_def quantified_re_def re_eval py_eval)
qed

text \<open>
  C1, as stated, fails: with at least one bullet the rate is not exactly
  \<open>100 * quantified / total\<close>. The quotient and the product are floats, each rounded.
  With one quantified bullet of three the rate is the float printed as
  \<^verbatim>\<open>33.33333333333333\<close>, which is neither \<open>100 / 3\<close> nor the float nearest to it
  (\<^verbatim>\<open>33.333333333333336\<close>, the value of \<^verbatim>\<open>100 * 1 / 3\<close>). With twenty-nine of fifty the
  rate is below 58 (\<^verbatim>\<open>57.99999999999999\<close>) although \<open>100 * 29 / 50\<close> is 58.
\<close>

theorem quantification_rate_counterexample:
  "qa_total_bullets (analyze_quantification one_of_three) = 3
   \<and> qa_quantified_bullets (analyze_quantification one_of_three) = 1
   \<and> qa_quantification_rate (analyze_quantification one_of_three)
       = 2345624805922133 / 70368744177664
   \<and> qa_quantification_rate (analyze_quantification one_of_three) \<noteq> 100 * 1 / 3
   \<and> qa_quantification_rate (analyze_quantification one_of_three) \<noteq> binary64 (100 * 1 / 3)
   \<and> qa_total_bullets (analyze_quantification twenty_nine_of_fifty) = 50
   \<and> qa_quantified_bullets (analyze_quantification twenty_nine_of_fifty) = 29
   \<and> qa_quantification_rate (analyze_quantification twenty_nine_of_fifty) < 58
   \<and> (100 * 29 / 50 :: rat) = 58"
  by (simp add: one_of_three_counts one_of_three_rate twenty_nine_of_fifty_rate
      nearest_float_100_3)

text \<open>
  C1, amended. The quantification analysis returns the rate
  \<open>(quantified / max total 1) * 100\<close> computed in binary64 arithmetic: the quotient is
  rounded to the nearest float, and so is its product with 100. The rate is exactly 0
  for a text without bullet lines. For a text with at least one bullet it lies between
  0 and 100 and differs from \<open>100 * quantified / total\<close> by the two roundings only, a
  relative error of at most \<open>2 ^ -51\<close> (and \<open>2 ^ -1067\<close> for quotients in the subnormal
  range).
\<close>

theorem quantification_rate_formula:
  "qa_quantification_rate (analyze_quantification text)
     = float_mul (float_div (int (qa_quantified_bullets (analyze_quantification text)))
                            (int (max (qa_total_bullets (analyze_quantification text)) 1))) 100
   \<and> qa_total_bullets (analyze_quantification text) = length (bullet_lines_of text)
   \<and> qa_quantified_bullets (analyze_quantification text)
       = length (filter (\<lambda>bullet. re_search True quantified_re bullet) (bullet_lines_of text))
   \<and> (qa_total_bullets (analyze_quantification text) = 0
        \<longrightarrow> qa_quantification_rate (analyze_quantification text) = 0)
   \<and> (qa_total_bullets (analyze_quantification text) > 0
        \<longrightarrow> \<bar>qa_quantification_rate (analyze_quantification text)
             - 100 * of_nat (qa_quantified_bullets (analyze_quantification text))
               / of_nat (qa_total_bullets (analyze_quantification text))\<bar>
            \<le> 100 * of_nat (qa_quantified_bullets (analyze_quantification text))
               / of_nat (qa_total_bullets (analyze_quantification text)) / 2 ^ 51
              + 1 / 2 ^ 1067)
   \<and> 0 \<le> qa_quantification_rate (analyze_quantification text)
   \<and> qa_quantification_rate (analyze_quantification text) \<le> 100"
proof -
  let ?r = "analyze_quantification text"
  define q where "q = qa_quantified_bullets ?r"
  define t where "t = qa_total_bullets ?r"
  define x :: rat where "x = of_nat q / of_nat (max t 1)"
  have total: "t = length (bullet_lines_of text)"
    by (simp add: t_def analyze_quantification_def Let_def)
  have quantified: "q
      = length (filter (\<lambda>bullet. re_search True quantified_re bullet) (bullet_lines_of text))"
    by (simp add: q_def analyze_quantification_def Let_def)
  have rate: "qa_quantification_rate ?r = float_mul (float_div (int q) (int (max t 1))) 100"
    by (simp add: q_def t_def analyze_quantification_def Let_def)
  then have rate_x: "qa_quantification_rate ?r = binary64 (binary64 x * 100)"
    by (simp add: float_mul_def float_div_def x_def)
  have "q \<le> t"
    unfolding quantified total by (rule length_filter_le)
  then have "q \<le> max t 1" "0 < max t 1"
    by linarith+
  then have x: "0 \<le> x" "x \<le> 1"
    by (simp_all add: x_def divide_le_eq_1 del: max_less_iff_conj less_max_iff_disj
        le_max_iff_disj)
  have range: "0 \<le> qa_quantification_rate ?r \<and> qa_quantification_rate ?r \<le> 100"
    unfolding rate_x using x by (rule two_roundings_range)
  have zero: "qa_quantification_rate ?r = 0" if "t = 0"
  proof -
    from that \<open>q \<le> t\<close> have "x = 0" by (simp add: x_def)
    then show ?thesis by (simp add: rate_x binary64_def)
  qed
  have pos: "\<bar>qa_quantification_rate ?r - 100 * of_nat q / of_nat t\<bar>
             \<le> 100 * of_nat q / of_nat t / 2 ^ 51 + 1 / 2 ^ 1067" if "t > 0"
  proof -
    from that have "max t 1 = t" by simp
    then have "100 * x = 100 * of_nat q / of_nat t"
      by (simp add: x_def)
    then show ?thesis
      using two_roundings_error [OF x(1)] by (simp only: rate_x)
  qed
  from rate total quantified zero pos range show ?thesis
    unfolding q_def t_def by blast
qed

theorem quantification_rate_formula_witness:
  "qa_total_bullets (analyze_quantification one_of_three) = 3
   \<and> \<bar>qa_quantification_rate (analyze_quantification one_of_three) - 100 * 1 / 3\<bar>
       \<le> 100 * 1 / 3 / 2 ^ 51 + 1 / 2 ^ 1067
   \<and> qa_total_bullets (analyze_quantification no_bullets) = 0
   \<and> qa_quantification_rate (analyze_quantification no_bullets) = 0"
proof -
  have t3: "qa_total_bullets (analyze_quantification one_of_three) = 3"
    by (rule one_of_three_counts(1))
  then have "0 < qa_total_bullets (analyze_quantification one_of_three)"
    by simp
  with quantification_rate_formula [of one_of_three]
  have "\<bar>qa_quantification_rate (analyze_quantification one_of_three)
         - 100 * of_nat (qa_quantified_bullets (analyze_quantification one_of_three))
           / of_nat (qa_total_bullets (analyze_quantification one_of_three))\<bar>
        \<le> 100 * of_nat (qa_quantified_bullets (analyze_quantification one_of_three))
           / of_nat (qa_total_bullets (analyze_quantification one_of_three)) / 2 ^ 51
          + 1 / 2 ^ 1067"
    by blast
  then have e: "\<bar>qa_quantification_rate (analyze_quantification one_of_three) - 100 * 1 / 3\<bar>
                \<le> 100 * 1 / 3 / 2 ^ 51 + 1 / 2 ^ 1067"
    by (simp only: one_of_three_counts of_nat_numeral of_nat_1)
  have t0: "qa_total_bullets (analyze_quantification no_bullets) = 0"
    using quantification_rate_formula [of no_bullets] by (simp add: no_bullets_lines)
  with quantification_rate_formula [of no_bullets]
  have z: "qa_quantification_rate (analyze_quantification no_bullets) = 0"
    by blast
  from t3 e t0 z show ?thesis
    by blast
qed

lemma eight_of_ten_bullets:
  "bullet_lines_of eight_of_ten =
     [asc ''- 1'', asc ''- 2'', asc ''- 3'', asc ''- 4'', asc ''- 5'', asc ''- 6'', asc ''- 7'',
      asc ''- 8'', asc ''- a'', asc ''- b'']"
  by (simp add: bullet_lines_of_def bullet_line_re_def eight_of_ten_def re_eval py_eval)

lemma eight_of_ten_rate: "compliance_rate eight_of_ten = 80"
proof -
  have "compliance_rate eight_of_ten = float_mul (float_div 8 10) 100"
    by (simp add: compliance_rate_def quantified_lines_of_def eight_of_ten_bullets amount_re_def
        re_eval py_eval)
  then show ?thesis
    by (simp only: float_rate_values)
qed

lemma one_of_six_bullets:
  "bullet_lines_of one_of_six =
     [asc ''- a'', asc ''- b'', asc ''- c'', asc ''- d'', asc ''- e'', asc ''- 5x'']"
  by (simp add: bullet_lines_of_def bullet_line_re_def one_of_six_def re_eval py_eval)

lemma one_of_six_rate: "compliance_rate one_of_six = 2345624805922133 / 140737488355328"
proof -
  have "compliance_rate one_of_six = float_mul (float_div 1 6) 100"
    by (simp add: compliance_rate_def quantified_lines_of_def one_of_six_bullets amount_re_def
        re_eval py_eval)
  then show ?thesis
    by (simp only: float_rate_values)
qed

lemma twenty_nine_of_fifty_compliance:
  "compliance_rate twenty_nine_of_fifty = 8162774324609023 / 140737488355328"
proof -
  have "length (quantified_lines_of twenty_nine_of_fifty) = 29"
    by (simp add: quantified_lines_of_def twenty_nine_of_fifty_bullets amount_re_def
        replicate_numeral_unfold re_eval py_eval)
  then have "compliance_rate twenty_nine_of_fifty = float_mul (float_div 29 50) 100"
    by (simp add: compliance_rate_def twenty_nine_of_fifty_bullets)
  then show ?thesis
    by (simp only: float_rate_values)
qed

lemma compliance_rate_range: "0 \<le> compliance_rate text \<and> compliance_rate text \<le> 100"
proof -
  define x :: rat where
    "x = of_nat (length (quantified_lines_of text)) / of_nat (length (bullet_lines_of text))"
  have "length (quantified_lines_of text) \<le> length (bullet_lines_of text)"
    unfolding quantified_lines_of_def by (rule length_filter_le)
  then have "0 \<le> x" "x \<le> 1"
    by (simp_all add: x_def divide_le_eq_1)
  then have "0 \<le> binary64 (binary64 x * 100) \<and> binary64 (binary64 x * 100) \<le> 100"
    by (rule two_roundings_range)
  then show ?thesis
    by (simp add: compliance_rate_def float_mul_def float_div_def x_def)
qed

text \<open>
  C4, as stated, fails: below 60 the score is not the rate rounded to an integer. With
  six bullets of which one holds a numeral the rate is the float printed as
  \<^verbatim>\<open>16.666666666666664\<close>; the score is 16, the rounded rate is 17.
\<close>

theorem quantification_standard_counterexample:
  "compliance_rate one_of_six < 60
   \<and> fst (check_quantification_compliance one_of_six) = 16
   \<and> round (compliance_rate one_of_six) = 17"
proof -
  have "\<lfloor>2345624805922133 / 140737488355328 :: rat\<rfloor> = 16"
    by (simp add: floor_rat_numeral)
  moreover have "round (2345624805922133 / 140737488355328 :: rat) = 17"
    by (simp add: round_def floor_rat_numeral)
  ultimately show ?thesis
    by (simp add: check_quantification_compliance_def one_of_six_bullets one_of_six_rate
        py_int_def Let_def)
qed

text \<open>
  C4, amended. Without bullet lines the score is 0 with the finding "No bullet points
  found". Otherwise, with the rate computed in binary64 arithmetic as
  \<open>quantified / total * 100\<close>, the score is 95 when the rate is at least 80 (the bound
  included), 80 when the rate is at least 60 and below 80, and below 60 the rate
  truncated to an integer, that is, rounded down; the score lies between 0 and 95. The
  truncation applies to the float: twenty-nine quantified bullets of fifty give the rate
  \<^verbatim>\<open>57.99999999999999\<close> and the score 57.
\<close>

theorem quantification_standard_score:
  "(bullet_lines_of text = []
      \<longrightarrow> check_quantification_compliance text = (0, [asc ''No bullet points found'']))
   \<and> (bullet_lines_of text \<noteq> []
      \<longrightarrow> fst (check_quantification_compliance text)
          = (if compliance_rate text \<ge> 80 then 95
             else if compliance_rate text \<ge> 60 then 80
             else \<lfloor>compliance_rate text\<rfloor>))
   \<and> compliance_rate text
       = float_mul (float_div (int (length (quantified_lines_of text)))
                              (int (length (bullet_lines_of text)))) 100
   \<and> 0 \<le> fst (check_quantification_compliance text)
   \<and> fst (check_quantification_compliance text) \<le> 95"
proof -
  have r: "0 \<le> compliance_rate text"
    by (simp add: compliance_rate_range)
  have a: "fst (check_quantification_compliance text)
           = (if compliance_rate text \<ge> 80 then 95
              else if compliance_rate text \<ge> 60 then 80
              else \<lfloor>compliance_rate text\<rfloor>)" if "bullet_lines_of text \<noteq> []"
    using that r by (simp add: check_quantification_compliance_def Let_def py_int_def)
  have b: "check_quantification_compliance text = (0, [asc ''No bullet points found''])"
    if "bullet_lines_of text = []"
    using that by (simp add: check_quantification_compliance_def)
  have f: "0 \<le> \<lfloor>compliance_rate text\<rfloor>"
    using r by simp
  have g: "\<lfloor>compliance_rate text\<rfloor> \<le> 95" if "\<not> compliance_rate text \<ge> 60"
  proof -
    from that have "compliance_rate text \<le> 95" by simp
    then have "\<lfloor>compliance_rate text\<rfloor> \<le> \<lfloor>95 :: rat\<rfloor>"
      by (rule floor_mono)
    then show ?thesis by simp
  qed
  have c: "0 \<le> fst (check_quantification_compliance text)
           \<and> fst (check_quantification_compliance text) \<le> 95"
  proof (cases "bullet_lines_of text = []")
    case True
    then show ?thesis by (simp add: b)
  next
    case False
    then show ?thesis using f g by (simp add: a)
  qed
  from a b c show ?thesis
    by (simp add: compliance_rate_def)
qed

theorem quantification_standard_score_witness:
  "compliance_rate eight_of_ten = 80
   \<and> fst (check_quantification_compliance eight_of_ten) = 95
   \<and> fst (check_quantification_compliance one_of_six) = 16
   \<and> fst (check_quantification_compliance twenty_nine_of_fifty) = 57
   \<and> check_quantification_compliance no_bullets = (0, [asc ''No bullet points found''])"
proof -
  have a: "\<lfloor>2345624805922133 / 140737488355328 :: rat\<rfloor> = 16"
    "\<lfloor>8162774324609023 / 140737488355328 :: rat\<rfloor> = 57"
    by (simp_all add: floor_rat_numeral)
  have b: "bullet_lines_of twenty_nine_of_fifty \<noteq> []"
    by (simp add: twenty_nine_of_fifty_bullets)
  show ?thesis
    using quantification_standard_score [of eight_of_ten]
      quantification_standard_score [of one_of_six]
      quantification_standard_score [of twenty_nine_of_fifty]
      quantification_standard_score [of no_bullets] a b
    by (simp add: eight_of_ten_bullets eight_of_ten_rate one_of_six_bullets one_of_six_rate
        twenty_nine_of_fifty_compliance no_bullets_lines)
qed

subsection \<open>Determinism of the scores\<close>

lemma list_of_set_filter_length:
  "length (filter P (list_of_set env xs)) = length (filter P (remdups xs))"
proof -
  have "mset (filter P (list_of_set env xs)) = mset (filter P (remdups xs))"
    by (simp add: list_of_set_def)
  then show ?thesis
    by (metis size_mset)
qed

lemma list_of_set_length: "length (list_of_set env xs) = length (remdups xs)"
  by (simp add: list_of_set_def)

lemma analyze_keywords_env: "analyze_keywords env1 text jd = analyze_keywords env2 text jd"
  by (simp add: analyze_keywords_def extract_jd_keywords_def Let_def
      list_of_set_filter_length list_of_set_length)

lemma analyze_sections_env: "analyze_sections env1 text jd = analyze_sections env2 text jd"
  by (simp add: analyze_sections_def analyze_keywords_env [of env1 _ _ env2])

text \<open>
  C3. Two runs on the same document text, job description and target role give the same
  overall score and the same enhanced score, whatever the clock shows and in whatever
  order the run lists its sets: the scores are functions of the features extracted from
  the text. The scan takes no network among its arguments, so no request to the LLM is
  made. For an empty catalog of standards both runs end with the same exception.
\<close>

theorem scores_deterministic:
  "overall_score (scan_cv env1 text jd) = overall_score (scan_cv env2 text jd)
   \<and> scan_sections (scan_cv env1 text jd) = scan_sections (scan_cv env2 text jd)
   \<and> map_sum id enhanced_score (enhanced_scan env1 catalog text jd target_role)
       = map_sum id enhanced_score (enhanced_scan env2 catalog text jd target_role)
   \<and> map_sum id (\<lambda>r. overall_score (er_scan r)) (enhanced_scan env1 catalog text jd target_role)
       = map_sum id (\<lambda>r. overall_score (er_scan r))
           (enhanced_scan env2 catalog text jd target_role)"
  by (simp add: scan_cv_def enhanced_scan_def Let_def analyze_sections_env [of env1 _ _ env2]
      split: sum.splits)

theorem scores_deterministic_witness:
  "timestamp (scan_cv run_a sample_cv sample_jd) \<noteq> timestamp (scan_cv run_b sample_cv sample_jd)
   \<and> list_of_set run_a [asc ''git'', asc ''java''] \<noteq> list_of_set run_b [asc ''git'', asc ''java'']
   \<and> overall_score (scan_cv run_a sample_cv sample_jd)
       = overall_score (scan_cv run_b sample_cv sample_jd)
   \<and> map_sum id enhanced_score (enhanced_scan run_a spec_standards sample_cv sample_jd [])
       = map_sum id enhanced_score (enhanced_scan run_b spec_standards sample_cv sample_jd [])"
proof -
  have "timestamp (scan_cv run_a sample_cv sample_jd)
        \<noteq> timestamp (scan_cv run_b sample_cv sample_jd)"
    by (simp add: scan_cv_def Let_def run_a_def run_b_def asc_def)
  moreover have "list_of_set run_a [asc ''git'', asc ''java'']
                 \<noteq> list_of_set run_b [asc ''git'', asc ''java'']"
    by (simp add: list_of_set_def run_a_def run_b_def asc_def)
  ultimately show ?thesis
    using scores_deterministic [of run_a sample_cv sample_jd run_b spec_standards "[]"]
    by simp
qed

end
